theory Spec2Isabelle
  imports Main "HOL-Library.Multiset" "HOL-Library.Char_ord" "HOL-Library.List_Lexorder"
begin

section \<open>The persisted tables\<close>

text \<open>
  The application keeps its data in two PostgreSQL tables. The \<open>books\<close> table is the one
  of the README (\<open>id SERIAL PRIMARY KEY, title TEXT NOT NULL, author TEXT, isbn TEXT,
  cover_url TEXT, rating INT, finished_on DATE, notes TEXT, created_at TIMESTAMP DEFAULT
  NOW()\<close>) with the \<open>user_id\<close> column the authenticated server reads and writes. The column
  is nullable in the model: the server of \<open>src/index.js\<close> inserts rows without it. A date
  is the day number PostgreSQL stores, a timestamp likewise a number: only their order
  matters. The \<open>users\<close> table is read from the queries of the authenticated server:
  \<open>id\<close>, \<open>email\<close>, \<open>password\<close>.
\<close>

record user_row =
  u_id :: int
  u_email :: string
  u_password :: string

record book_row =
  b_id :: int
  b_user_id :: "int option"
  b_title :: string
  b_author :: "string option"
  b_isbn :: "string option"
  b_cover_url :: "string option"
  b_rating :: "int option"
  b_finished_on :: "int option"
  b_notes :: "string option"
  b_created_at :: int

text \<open>
  The state a request runs against: both tables, the two \<open>SERIAL\<close> sequences (the next
  value each will hand out), and the login session of the requesting browser, which
  holds what \<open>passport.serializeUser\<close> stored there: a user's id, or nothing.
\<close>

record state =
  users :: "user_row list"
  books :: "book_row list"
  users_id_seq :: int
  books_id_seq :: int
  session :: "int option"

section \<open>What the server calls but does not define\<close>

text \<open>
  Values of JavaScript as far as the cover lookup meets them: the parsed body of the
  Open Library answer, \<open>undefined\<close> for a property that is not there, \<open>null\<close>.
\<close>

datatype jsval =
    Undefined
  | Null
  | Bool bool
  | Num int
  | Str string
  | Arr "jsval list"
  | Obj "(string \<times> jsval) list"

text \<open>
  The collaborators are parameters of the model. \<open>int4in\<close> and \<open>date_in\<close> are PostgreSQL's
  conversions of a text parameter to \<open>integer\<close> and \<open>date\<close> (\<open>None\<close>: the statement is
  refused with an invalid-input error); \<open>now\<close> is the clock behind \<open>DEFAULT NOW()\<close>;
  \<open>bcrypt_hash password rounds\<close> and \<open>bcrypt_compare password hash\<close> are the two calls of
  the bcrypt library (the salt it draws is part of the environment); \<open>axios_get\<close> answers
  an outbound GET, given its URL and its \<open>bibkeys\<close> parameter, with the parsed body or,
  \<open>Inl\<close>, with the error it throws; \<open>login_fails\<close> and \<open>logout_fails\<close> say whether
  \<open>req.login\<close> and \<open>req.logout\<close> hand an error to their callback.
\<close>

record env =
  int4in :: "string \<Rightarrow> int option"
  date_in :: "string \<Rightarrow> int option"
  now :: int
  bcrypt_hash :: "string \<Rightarrow> nat \<Rightarrow> string"
  bcrypt_compare :: "string \<Rightarrow> string \<Rightarrow> bool"
  axios_get :: "string \<times> string \<Rightarrow> string + jsval"
  login_fails :: bool
  logout_fails :: bool

datatype pg_error = invalid_text_representation | not_null_violation | unique_violation

text \<open>What a handler answers with.\<close>

datatype response =
    Redirect string
  | Send nat string
  | Render_index "book_row list" string
  | Render_book_form "book_row option" string string string
  | Render_login "string option"
  | Render_register "string option"
  | Json_cover string jsval
  | Next_error

section \<open>Form fields\<close>

text \<open>
  A field of \<open>req.body\<close> is a string, or \<open>undefined\<close> (\<open>None\<close>) when the request does not
  carry it. \<open>v || null\<close> keeps a non-empty string and turns both the empty string and
  \<open>undefined\<close> into \<open>null\<close>, which the driver sends as SQL \<open>NULL\<close>, as it does \<open>undefined\<close>.
\<close>

definition or_null :: "string option \<Rightarrow> string option" where
  "or_null v = (case v of None \<Rightarrow> None | Some s \<Rightarrow> if s = [] then None else Some s)"

record book_form =
  f_title :: "string option"
  f_author :: "string option"
  f_isbn :: "string option"
  f_rating :: "string option"
  f_notes :: "string option"
  f_finished_on :: "string option"

text \<open>
  Binding an optional text parameter to a typed column: \<open>NULL\<close> stays \<open>NULL\<close>, a text is
  converted, and a text the conversion refuses fails the statement.
\<close>

definition bind_opt :: "(string \<Rightarrow> int option) \<Rightarrow> string option \<Rightarrow> pg_error + int option" where
  "bind_opt conv p =
     (case p of
        None \<Rightarrow> Inr None
      | Some s \<Rightarrow> (case conv s of None \<Rightarrow> Inl invalid_text_representation | Some n \<Rightarrow> Inr (Some n)))"

definition bind_int :: "(string \<Rightarrow> int option) \<Rightarrow> string \<Rightarrow> pg_error + int" where
  "bind_int conv s = (case conv s of None \<Rightarrow> Inl invalid_text_representation | Some n \<Rightarrow> Inr n)"

section \<open>Session restore and the guard\<close>

text \<open>
  \<open>passport.deserializeUser\<close>: \<open>SELECT id, email FROM users WHERE id = $1\<close>; no row means
  the request is anonymous, otherwise \<open>req.user\<close> is the first row.
\<close>

definition deserializeUser :: "state \<Rightarrow> int \<Rightarrow> (int \<times> string) option" where
  "deserializeUser st i =
     (case filter (\<lambda>u. u_id u = i) (users st) of
        [] \<Rightarrow> None
      | u # _ \<Rightarrow> Some (u_id u, u_email u))"

definition req_user :: "state \<Rightarrow> (int \<times> string) option" where
  "req_user st = (case session st of None \<Rightarrow> None | Some i \<Rightarrow> deserializeUser st i)"

definition isAuthenticated :: "state \<Rightarrow> bool" where
  "isAuthenticated st = (req_user st \<noteq> None)"

definition requireAuth :: "state \<Rightarrow> (state \<Rightarrow> response \<times> state) \<Rightarrow> response \<times> state" where
  "requireAuth st next = (if \<not> isAuthenticated st then (Redirect ''/login'', st) else next st)"

section \<open>The statements on the books table\<close>

text \<open>
  The parameter array of the insert and the update, the same in both servers:
  \<open>[title, author || null, isbn || null, rating || null, notes || null, finished_on || null, ...]\<close>.
\<close>

definition book_params :: "book_form \<Rightarrow> book_form" where
  "book_params f =
     \<lparr>f_title = f_title f,
      f_author = or_null (f_author f),
      f_isbn = or_null (f_isbn f),
      f_rating = or_null (f_rating f),
      f_notes = or_null (f_notes f),
      f_finished_on = or_null (f_finished_on f)\<rparr>"

text \<open>The two \<open>WHERE\<close> clauses: \<open>id = $1 AND user_id = $2\<close>, and \<open>id = $1\<close> alone.\<close>

definition owned_match :: "int \<Rightarrow> int \<Rightarrow> book_row \<Rightarrow> bool" where
  "owned_match bid uid b = (b_id b = bid \<and> b_user_id b = Some uid)"

definition id_match :: "int \<Rightarrow> book_row \<Rightarrow> bool" where
  "id_match bid b = (b_id b = bid)"

text \<open>
  \<open>INSERT INTO books (title, author, isbn, rating, notes, finished_on[, user_id]) VALUES (...)\<close>.
  The text parameters of the typed columns are converted first; a refused one fails the
  statement before anything happens. Then the row takes the next value of the sequence
  (which stays consumed when the row is refused), the clock's \<open>created_at\<close> and no cover,
  and is refused when its title is \<open>NULL\<close> or its id is taken.
\<close>

definition insert_book :: "env \<Rightarrow> book_form \<Rightarrow> int option \<Rightarrow> state \<Rightarrow> (pg_error + nat) \<times> state" where
  "insert_book e p uid st =
     (case bind_opt (int4in e) (f_rating p) of
        Inl err \<Rightarrow> (Inl err, st)
      | Inr r \<Rightarrow>
     (case bind_opt (date_in e) (f_finished_on p) of
        Inl err \<Rightarrow> (Inl err, st)
      | Inr d \<Rightarrow>
     (let i = books_id_seq st; st' = st\<lparr>books_id_seq := i + 1\<rparr> in
      case f_title p of
        None \<Rightarrow> (Inl not_null_violation, st')
      | Some t \<Rightarrow>
          if i \<in> b_id ` set (books st) then (Inl unique_violation, st')
          else (Inr 1, st'\<lparr>books := books st @
                 [\<lparr>b_id = i, b_user_id = uid, b_title = t, b_author = f_author p,
                   b_isbn = f_isbn p, b_cover_url = None, b_rating = r, b_finished_on = d,
                   b_notes = f_notes p, b_created_at = now e\<rparr>]\<rparr>))))"

text \<open>
  \<open>UPDATE books SET title = $1, author = $2, isbn = $3, rating = $4, notes = $5,
  finished_on = $6 WHERE ...\<close>: every row the clause selects has the six columns
  overwritten; a \<open>NULL\<close> title is refused as soon as there is a row to write it to.
\<close>

definition set_fields :: "string \<Rightarrow> book_form \<Rightarrow> int option \<Rightarrow> int option \<Rightarrow> book_row \<Rightarrow> book_row" where
  "set_fields t p r d b =
     b\<lparr>b_title := t, b_author := f_author p, b_isbn := f_isbn p, b_rating := r,
       b_notes := f_notes p, b_finished_on := d\<rparr>"

definition update_where :: "env \<Rightarrow> (book_row \<Rightarrow> bool) \<Rightarrow> book_form \<Rightarrow> state \<Rightarrow> (pg_error + nat) \<times> state" where
  "update_where e w p st =
     (case bind_opt (int4in e) (f_rating p) of
        Inl err \<Rightarrow> (Inl err, st)
      | Inr r \<Rightarrow>
     (case bind_opt (date_in e) (f_finished_on p) of
        Inl err \<Rightarrow> (Inl err, st)
      | Inr d \<Rightarrow>
     (case f_title p of
        None \<Rightarrow> if filter w (books st) = [] then (Inr 0, st) else (Inl not_null_violation, st)
      | Some t \<Rightarrow>
          (Inr (length (filter w (books st))),
           st\<lparr>books := map (\<lambda>b. if w b then set_fields t p r d b else b) (books st)\<rparr>))))"

definition delete_where :: "(book_row \<Rightarrow> bool) \<Rightarrow> state \<Rightarrow> (pg_error + nat) \<times> state" where
  "delete_where w st =
     (Inr (length (filter w (books st))), st\<lparr>books := filter (\<lambda>b. \<not> w b) (books st)\<rparr>)"

text \<open>The statements of the authenticated server, with the \<open>id\<close> parameter as the path gives it.\<close>

definition select_book :: "env \<Rightarrow> string \<Rightarrow> int \<Rightarrow> state \<Rightarrow> pg_error + book_row list" where
  "select_book e id_param uid st =
     (case bind_int (int4in e) id_param of
        Inl err \<Rightarrow> Inl err
      | Inr bid \<Rightarrow> Inr (filter (owned_match bid uid) (books st)))"

definition update_book :: "env \<Rightarrow> book_form \<Rightarrow> string \<Rightarrow> int \<Rightarrow> state \<Rightarrow> (pg_error + nat) \<times> state" where
  "update_book e p id_param uid st =
     (case bind_int (int4in e) id_param of
        Inl err \<Rightarrow> (Inl err, st)
      | Inr bid \<Rightarrow> update_where e (owned_match bid uid) p st)"

definition delete_book :: "env \<Rightarrow> string \<Rightarrow> int \<Rightarrow> state \<Rightarrow> (pg_error + nat) \<times> state" where
  "delete_book e id_param uid st =
     (case bind_int (int4in e) id_param of
        Inl err \<Rightarrow> (Inl err, st)
      | Inr bid \<Rightarrow> delete_where (owned_match bid uid) st)"

text \<open>The statements of \<open>src/index.js\<close>, which select by \<open>id\<close> alone.\<close>

definition indexjs_select_book :: "env \<Rightarrow> string \<Rightarrow> state \<Rightarrow> pg_error + book_row list" where
  "indexjs_select_book e id_param st =
     (case bind_int (int4in e) id_param of
        Inl err \<Rightarrow> Inl err
      | Inr bid \<Rightarrow> Inr (filter (id_match bid) (books st)))"

definition indexjs_update_book :: "env \<Rightarrow> book_form \<Rightarrow> string \<Rightarrow> state \<Rightarrow> (pg_error + nat) \<times> state" where
  "indexjs_update_book e p id_param st =
     (case bind_int (int4in e) id_param of
        Inl err \<Rightarrow> (Inl err, st)
      | Inr bid \<Rightarrow> update_where e (id_match bid) p st)"

definition indexjs_delete_book :: "env \<Rightarrow> string \<Rightarrow> state \<Rightarrow> (pg_error + nat) \<times> state" where
  "indexjs_delete_book e id_param st =
     (case bind_int (int4in e) id_param of
        Inl err \<Rightarrow> (Inl err, st)
      | Inr bid \<Rightarrow> delete_where (id_match bid) st)"

section \<open>The book handlers of the authenticated server\<close>

text \<open>
  Each route is \<open>requireAuth\<close> followed by its handler. A handler reads \<open>req.user.id\<close>
  inside its \<open>try\<close>; without a user that read throws and the \<open>catch\<close> answers 500.
\<close>

definition h_get_books_new :: "state \<Rightarrow> response \<times> state" where
  "h_get_books_new st = (Render_book_form None ''/books'' ''POST'' ''Add a book'', st)"

definition h_get_books_id_edit :: "env \<Rightarrow> string \<Rightarrow> state \<Rightarrow> response \<times> state" where
  "h_get_books_id_edit e id_param st =
     (case req_user st of
        None \<Rightarrow> (Send 500 ''Error loading book'', st)
      | Some (uid, _) \<Rightarrow>
          (case select_book e id_param uid st of
             Inl _ \<Rightarrow> (Send 500 ''Error loading book'', st)
           | Inr rows \<Rightarrow>
               (case rows of
                  [] \<Rightarrow> (Send 404 ''Book not found'', st)
                | b # _ \<Rightarrow>
                    (Render_book_form (Some b) (''/books/'' @ id_param @ ''/edit'') ''POST''
                       ''Edit book'', st))))"

definition h_post_books :: "env \<Rightarrow> book_form \<Rightarrow> state \<Rightarrow> response \<times> state" where
  "h_post_books e f st =
     (case req_user st of
        None \<Rightarrow> (Send 500 ''Error creating book'', st)
      | Some (uid, _) \<Rightarrow>
          (case insert_book e (book_params f) (Some uid) st of
             (Inl _, st') \<Rightarrow> (Send 500 ''Error creating book'', st')
           | (Inr _, st') \<Rightarrow> (Redirect ''/'', st')))"

definition h_post_books_id_edit :: "env \<Rightarrow> string \<Rightarrow> book_form \<Rightarrow> state \<Rightarrow> response \<times> state" where
  "h_post_books_id_edit e id_param f st =
     (case req_user st of
        None \<Rightarrow> (Send 500 ''Error updating book'', st)
      | Some (uid, _) \<Rightarrow>
          (case update_book e (book_params f) id_param uid st of
             (Inl _, st') \<Rightarrow> (Send 500 ''Error updating book'', st')
           | (Inr _, st') \<Rightarrow> (Redirect ''/'', st')))"

definition h_post_books_id_delete :: "env \<Rightarrow> string \<Rightarrow> state \<Rightarrow> response \<times> state" where
  "h_post_books_id_delete e id_param st =
     (case req_user st of
        None \<Rightarrow> (Send 500 ''Error deleting book'', st)
      | Some (uid, _) \<Rightarrow>
          (case delete_book e id_param uid st of
             (Inl _, st') \<Rightarrow> (Send 500 ''Error deleting book'', st')
           | (Inr _, st') \<Rightarrow> (Redirect ''/'', st')))"

definition get_books_new :: "state \<Rightarrow> response \<times> state" where
  "get_books_new st = requireAuth st h_get_books_new"

definition get_books_id_edit :: "env \<Rightarrow> string \<Rightarrow> state \<Rightarrow> response \<times> state" where
  "get_books_id_edit e id_param st = requireAuth st (h_get_books_id_edit e id_param)"

definition post_books :: "env \<Rightarrow> book_form \<Rightarrow> state \<Rightarrow> response \<times> state" where
  "post_books e f st = requireAuth st (h_post_books e f)"

definition post_books_id_edit :: "env \<Rightarrow> string \<Rightarrow> book_form \<Rightarrow> state \<Rightarrow> response \<times> state" where
  "post_books_id_edit e id_param f st = requireAuth st (h_post_books_id_edit e id_param f)"

definition post_books_id_delete :: "env \<Rightarrow> string \<Rightarrow> state \<Rightarrow> response \<times> state" where
  "post_books_id_delete e id_param st = requireAuth st (h_post_books_id_delete e id_param)"

section \<open>The book handlers of src/index.js\<close>

text \<open>The same routes without sessions, users or a guard.\<close>

definition indexjs_get_books_id_edit :: "env \<Rightarrow> string \<Rightarrow> state \<Rightarrow> response \<times> state" where
  "indexjs_get_books_id_edit e id_param st =
     (case indexjs_select_book e id_param st of
        Inl _ \<Rightarrow> (Send 500 ''Error loading book'', st)
      | Inr rows \<Rightarrow>
          (case rows of
             [] \<Rightarrow> (Send 404 ''Book not found'', st)
           | b # _ \<Rightarrow>
               (Render_book_form (Some b) (''/books/'' @ id_param @ ''/edit'') ''POST''
                  ''Edit book'', st)))"

definition indexjs_post_books :: "env \<Rightarrow> book_form \<Rightarrow> state \<Rightarrow> response \<times> state" where
  "indexjs_post_books e f st =
     (case insert_book e (book_params f) None st of
        (Inl _, st') \<Rightarrow> (Send 500 ''Error creating book'', st')
      | (Inr _, st') \<Rightarrow> (Redirect ''/'', st'))"

definition indexjs_post_books_id_edit :: "env \<Rightarrow> string \<Rightarrow> book_form \<Rightarrow> state \<Rightarrow> response \<times> state" where
  "indexjs_post_books_id_edit e id_param f st =
     (case indexjs_update_book e (book_params f) id_param st of
        (Inl _, st') \<Rightarrow> (Send 500 ''Error updating book'', st')
      | (Inr _, st') \<Rightarrow> (Redirect ''/'', st'))"

definition indexjs_post_books_id_delete :: "env \<Rightarrow> string \<Rightarrow> state \<Rightarrow> response \<times> state" where
  "indexjs_post_books_id_delete e id_param st =
     (case indexjs_delete_book e id_param st of
        (Inl _, st') \<Rightarrow> (Send 500 ''Error deleting book'', st')
      | (Inr _, st') \<Rightarrow> (Redirect ''/'', st'))"

section \<open>The listing\<close>

text \<open>
  \<open>x DESC NULLS LAST\<close>: when a value sorts strictly before another. Texts are those
  of a database in the \<open>C\<close> locale: \<open>LOWER\<close> maps the ASCII capitals to small letters
  and leaves every other byte, and texts compare byte by byte.
\<close>

definition desc_nulls_last :: "int option \<Rightarrow> int option \<Rightarrow> bool" where
  "desc_nulls_last x y =
     (case x of
        None \<Rightarrow> False
      | Some a \<Rightarrow> (case y of None \<Rightarrow> True | Some b \<Rightarrow> b < a))"

definition lower_char :: "char \<Rightarrow> char" where
  "lower_char c =
     (if CHR ''A'' \<le> c \<and> c \<le> CHR ''Z'' then char_of (of_char c + (32 :: nat)) else c)"

definition LOWER :: "string \<Rightarrow> string" where
  "LOWER s = map lower_char s"

text \<open>
  The three \<open>ORDER BY\<close> clauses, each as the relation "\<open>a\<close> may stand before \<open>b\<close>":
  \<open>rating DESC NULLS LAST, finished_on DESC NULLS LAST\<close>, then \<open>LOWER(title) ASC\<close>, then
  \<open>finished_on DESC NULLS LAST, id DESC\<close>.
\<close>

definition rating_order :: "book_row \<Rightarrow> book_row \<Rightarrow> bool" where
  "rating_order a b =
     (desc_nulls_last (b_rating a) (b_rating b) \<or>
      (b_rating a = b_rating b \<and>
       (desc_nulls_last (b_finished_on a) (b_finished_on b) \<or> b_finished_on a = b_finished_on b)))"

definition title_order :: "book_row \<Rightarrow> book_row \<Rightarrow> bool" where
  "title_order a b = (LOWER (b_title a) \<le> LOWER (b_title b))"

definition recent_order :: "book_row \<Rightarrow> book_row \<Rightarrow> bool" where
  "recent_order a b =
     (desc_nulls_last (b_finished_on a) (b_finished_on b) \<or>
      (b_finished_on a = b_finished_on b \<and> b_id b \<le> b_id a))"

text \<open>
  \<open>ORDER BY\<close> as an insertion sort. PostgreSQL leaves the order among rows that tie
  open; this sort keeps them in table order.
\<close>

fun insort_by :: "('a \<Rightarrow> 'a \<Rightarrow> bool) \<Rightarrow> 'a \<Rightarrow> 'a list \<Rightarrow> 'a list" where
  "insort_by le x [] = [x]"
| "insort_by le x (y # ys) = (if le x y then x # y # ys else y # insort_by le x ys)"

definition order_by :: "('a \<Rightarrow> 'a \<Rightarrow> bool) \<Rightarrow> 'a list \<Rightarrow> 'a list" where
  "order_by le xs = foldr (insort_by le) xs []"

text \<open>
  \<open>req.query.sort || "recent"\<close>, the clause chosen from it, and
  \<open>SELECT * FROM books WHERE user_id = $1 ORDER BY ...\<close>.
\<close>

definition sort_param :: "string option \<Rightarrow> string" where
  "sort_param q = (case or_null q of None \<Rightarrow> ''recent'' | Some s \<Rightarrow> s)"

definition orderBy :: "string \<Rightarrow> book_row \<Rightarrow> book_row \<Rightarrow> bool" where
  "orderBy srt =
     (if srt = ''rating'' then rating_order
      else if srt = ''title'' then title_order
      else recent_order)"

definition select_books :: "int \<Rightarrow> string \<Rightarrow> state \<Rightarrow> book_row list" where
  "select_books uid srt st =
     order_by (orderBy srt) (filter (\<lambda>b. b_user_id b = Some uid) (books st))"

definition h_get_root :: "string option \<Rightarrow> state \<Rightarrow> response \<times> state" where
  "h_get_root q st =
     (case req_user st of
        None \<Rightarrow> (Send 500 ''Error loading books'', st)
      | Some (uid, _) \<Rightarrow> (Render_index (select_books uid (sort_param q) st) (sort_param q), st))"

definition get_root :: "string option \<Rightarrow> state \<Rightarrow> response \<times> state" where
  "get_root q st = requireAuth st (h_get_root q)"

section \<open>Registration, login, logout\<close>

definition saltRounds :: nat where
  "saltRounds = 10"

text \<open>
  The verify callback of the local strategy: \<open>SELECT * FROM users WHERE email = $1\<close>, the
  first row, \<open>bcrypt.compare\<close>. Its outcomes are the three ways it calls \<open>cb\<close>.
\<close>

datatype verify_result = Verify_error | Verify_fail string | Verify_ok int string

definition local_verify :: "env \<Rightarrow> string \<Rightarrow> string \<Rightarrow> state \<Rightarrow> verify_result" where
  "local_verify e email password st =
     (case filter (\<lambda>u. u_email u = email) (users st) of
        [] \<Rightarrow> Verify_fail ''Invalid email or password''
      | user # _ \<Rightarrow>
          if \<not> bcrypt_compare e password (u_password user)
          then Verify_fail ''Invalid email or password''
          else Verify_ok (u_id user) (u_email user))"

text \<open>
  \<open>passport.authenticate("local", {successRedirect: "/", failureRedirect: "/login?error=1"})\<close>.
  The strategy fails a request with an empty credential before it calls the callback;
  a failure redirects, whatever its message; success stores the user's id in the session.
\<close>

definition post_login :: "env \<Rightarrow> string \<Rightarrow> string \<Rightarrow> state \<Rightarrow> response \<times> state" where
  "post_login e email password st =
     (if email = [] \<or> password = [] then (Redirect ''/login?error=1'', st)
      else
        (case local_verify e email password st of
           Verify_error \<Rightarrow> (Next_error, st)
         | Verify_fail _ \<Rightarrow> (Redirect ''/login?error=1'', st)
         | Verify_ok i _ \<Rightarrow>
             if login_fails e then (Next_error, st)
             else (Redirect ''/'', st\<lparr>session := Some i\<rparr>)))"

definition get_login :: "string option \<Rightarrow> state \<Rightarrow> response \<times> state" where
  "get_login error_q st =
     (if isAuthenticated st then (Redirect ''/'', st)
      else
        (Render_login
           (case or_null error_q of None \<Rightarrow> None | Some _ \<Rightarrow> Some ''Invalid email or password''),
         st))"

definition get_register :: "state \<Rightarrow> response \<times> state" where
  "get_register st =
     (if isAuthenticated st then (Redirect ''/'', st) else (Render_register None, st))"

text \<open>
  Modelled from the spec: the schema of the \<open>users\<close> table, which no source file
  declares, is \<open>users(id, email unique, password_hash)\<close>.
  \<open>INSERT INTO users (email, password) VALUES ($1, $2) RETURNING id, email\<close> gives the row
  the next value of its sequence and is refused when the id or the email is taken.
\<close>

definition insert_user :: "string \<Rightarrow> string \<Rightarrow> state \<Rightarrow> (pg_error + user_row) \<times> state" where
  "insert_user email hash st =
     (let i = users_id_seq st;
          st' = st\<lparr>users_id_seq := i + 1\<rparr>;
          row = \<lparr>u_id = i, u_email = email, u_password = hash\<rparr>
      in if i \<in> u_id ` set (users st) \<or> email \<in> u_email ` set (users st)
         then (Inl unique_violation, st')
         else (Inr row, st'\<lparr>users := users st @ [row]\<rparr>))"

definition post_register :: "env \<Rightarrow> string \<Rightarrow> string \<Rightarrow> state \<Rightarrow> response \<times> state" where
  "post_register e email password st =
     (case filter (\<lambda>u. u_email u = email) (users st) of
        _ # _ \<Rightarrow> (Render_register (Some ''Email already registered''), st)
      | [] \<Rightarrow>
          (case insert_user email (bcrypt_hash e password saltRounds) st of
             (Inl _, st') \<Rightarrow> (Send 500 ''Error registering user'', st')
           | (Inr row, st') \<Rightarrow>
               if login_fails e then (Send 500 ''Error logging in after registration'', st')
               else (Redirect ''/'', st'\<lparr>session := Some (u_id row)\<rparr>)))"

text \<open>\<open>POST /logout\<close> is registered without the guard.\<close>

definition post_logout :: "env \<Rightarrow> state \<Rightarrow> response \<times> state" where
  "post_logout e st =
     (if logout_fails e then (Send 500 ''Error logging out'', st)
      else (Redirect ''/login'', st\<lparr>session := None\<rparr>))"

section \<open>The cover lookup\<close>

definition OPEN_LIBRARY_API :: string where
  "OPEN_LIBRARY_API = ''https://openlibrary.org/api/books''"

definition PLACEHOLDER_COVER :: string where
  "PLACEHOLDER_COVER = ''data:image/svg+xml,<svg xmlns='http://www.w3.org/2000/svg' width='320' height='480' viewBox='0 0 320 480'><rect width='320' height='480' fill='%23111827'/><text x='50%' y='50%' fill='%2394a3b8' font-size='20' text-anchor='middle' font-family='Arial'>No cover</text></svg>''"

text \<open>
  Truthiness, and reading a property. The keys read here (\<open>ISBN:...\<close>, \<open>cover\<close>,
  \<open>medium\<close>, \<open>large\<close>) are no built-in property of a string, a number or an array, so
  only an object can have them; of a key that occurs twice the last value counts.
  \<open>v?.k\<close> is \<open>undefined\<close> on \<open>null\<close> and \<open>undefined\<close>.
\<close>

fun truthy :: "jsval \<Rightarrow> bool" where
  "truthy Undefined = False"
| "truthy Null = False"
| "truthy (Bool b) = b"
| "truthy (Num n) = (n \<noteq> 0)"
| "truthy (Str s) = (s \<noteq> [])"
| "truthy (Arr _) = True"
| "truthy (Obj _) = True"

definition js_or :: "jsval \<Rightarrow> jsval \<Rightarrow> jsval" where
  "js_or a b = (if truthy a then a else b)"

definition get_prop :: "jsval \<Rightarrow> string \<Rightarrow> jsval" where
  "get_prop v k =
     (case v of
        Obj kvs \<Rightarrow> (case map_of (rev kvs) k of None \<Rightarrow> Undefined | Some x \<Rightarrow> x)
      | _ \<Rightarrow> Undefined)"

definition opt_prop :: "jsval \<Rightarrow> string \<Rightarrow> jsval" where
  "opt_prop v k = (if v = Undefined \<or> v = Null then Undefined else get_prop v k)"

text \<open>
  \<open>fetchCoverUrl\<close> returns its value together with the outbound requests it made.
  \<open>!isbn\<close> holds of \<open>null\<close>, \<open>undefined\<close> and the empty string, the values \<open>or_null\<close> maps
  to \<open>None\<close>. Reading \<open>data[...]\<close> off a \<open>null\<close> or \<open>undefined\<close> body throws inside the
  \<open>try\<close>, like the request itself can.
\<close>

definition fetchCoverUrl :: "env \<Rightarrow> string option \<Rightarrow> jsval \<times> (string \<times> string) list" where
  "fetchCoverUrl e isbn =
     (case or_null isbn of
        None \<Rightarrow> (Null, [])
      | Some s \<Rightarrow>
          (let call = (OPEN_LIBRARY_API, ''ISBN:'' @ s) in
           case axios_get e call of
             Inl err \<Rightarrow> (Null, [call])
           | Inr data \<Rightarrow>
               if data = Undefined \<or> data = Null then (Null, [call])
               else
                 (let entry = get_prop data (''ISBN:'' @ s) in
                  (js_or (js_or (opt_prop (opt_prop entry ''cover'') ''medium'')
                                (opt_prop (opt_prop entry ''cover'') ''large''))
                         Null,
                   [call]))))"

text \<open>
  \<open>GET /api/cover/:isbn\<close>: \<open>res.json({isbn, cover_url: url || PLACEHOLDER_COVER})\<close>. The
  route's own \<open>catch\<close> is never entered: \<open>fetchCoverUrl\<close> catches what the lookup throws.
\<close>

definition get_api_cover :: "env \<Rightarrow> string \<Rightarrow> state \<Rightarrow> response \<times> state" where
  "get_api_cover e isbn_param st =
     (Json_cover isbn_param (js_or (fst (fetchCoverUrl e (Some isbn_param))) (Str PLACEHOLDER_COVER)), st)"

section \<open>The routes\<close>

datatype request =
    GET_root "string option"
  | GET_api_cover string
  | GET_books_new
  | GET_books_id_edit string
  | POST_books book_form
  | POST_books_id_edit string book_form
  | POST_books_id_delete string
  | GET_login "string option"
  | GET_register
  | POST_register string string
  | POST_login string string
  | POST_logout

fun app :: "env \<Rightarrow> request \<Rightarrow> state \<Rightarrow> response \<times> state" where
  "app e (GET_root q) st = get_root q st"
| "app e (GET_api_cover i) st = get_api_cover e i st"
| "app e GET_books_new st = get_books_new st"
| "app e (GET_books_id_edit i) st = get_books_id_edit e i st"
| "app e (POST_books f) st = post_books e f st"
| "app e (POST_books_id_edit i f) st = post_books_id_edit e i f st"
| "app e (POST_books_id_delete i) st = post_books_id_delete e i st"
| "app e (GET_login q) st = get_login q st"
| "app e GET_register st = get_register st"
| "app e (POST_register m p) st = post_register e m p st"
| "app e (POST_login m p) st = post_login e m p st"
| "app e POST_logout st = post_logout e st"

text \<open>The routes the server registers with \<open>requireAuth\<close>.\<close>

fun guarded :: "request \<Rightarrow> bool" where
  "guarded (GET_root _) = True"
| "guarded GET_books_new = True"
| "guarded (GET_books_id_edit _) = True"
| "guarded (POST_books _) = True"
| "guarded (POST_books_id_edit _ _) = True"
| "guarded (POST_books_id_delete _) = True"
| "guarded _ = False"

text \<open>
  The operations the specification's interface table lists with "Auth: required": the
  guarded six and \<open>POST /logout\<close>.
\<close>

definition spec_auth_required :: "request \<Rightarrow> bool" where
  "spec_auth_required r = (guarded r \<or> r = POST_logout)"

section \<open>Sample data\<close>

text \<open>
  A concrete environment and concrete tables to run the model on. The conversions read
  decimal digits up to the largest \<open>integer\<close> (a date is written as its day number), the
  hash is a stand-in that marks the password, lookups time out, and the session calls
  succeed.
\<close>

definition dec_digit :: "char \<Rightarrow> nat option" where
  "dec_digit c = (if CHR ''0'' \<le> c \<and> c \<le> CHR ''9'' then Some (of_char c - 48) else None)"

fun dec_nat :: "nat \<Rightarrow> string \<Rightarrow> nat option" where
  "dec_nat acc [] = Some acc"
| "dec_nat acc (c # cs) =
     (case dec_digit c of None \<Rightarrow> None | Some d \<Rightarrow> dec_nat (10 * acc + d) cs)"

definition dec_int :: "string \<Rightarrow> int option" where
  "dec_int s =
     (if s = [] then None
      else (case dec_nat 0 s of
              None \<Rightarrow> None
            | Some n \<Rightarrow> if n \<le> 2147483647 then Some (int n) else None))"

definition env0 :: env where
  "env0 =
     \<lparr>int4in = dec_int,
      date_in = dec_int,
      now = 0,
      bcrypt_hash = (\<lambda>p r. ''hashed:'' @ p),
      bcrypt_compare = (\<lambda>p h. h = ''hashed:'' @ p),
      axios_get = (\<lambda>call. Inl ''timeout of 5000ms exceeded''),
      login_fails = False,
      logout_fails = False\<rparr>"

definition alice :: user_row where
  "alice = \<lparr>u_id = 1, u_email = ''alice@example.com'', u_password = ''hashed:wonderland''\<rparr>"

definition bob :: user_row where
  "bob = \<lparr>u_id = 2, u_email = ''bob@example.com'', u_password = ''hashed:builder''\<rparr>"

definition bobs_book :: book_row where
  "bobs_book =
     \<lparr>b_id = 1, b_user_id = Some 2, b_title = ''Dune'', b_author = Some ''Frank Herbert'',
      b_isbn = None, b_cover_url = None, b_rating = Some 4, b_finished_on = None,
      b_notes = None, b_created_at = 0\<rparr>"

text \<open>Alice is logged in; the only book belongs to Bob.\<close>

definition st_alice :: state where
  "st_alice =
     \<lparr>users = [alice, bob], books = [bobs_book], users_id_seq = 3, books_id_seq = 2,
      session = Some 1\<rparr>"

text \<open>The same tables seen from a browser that is not logged in.\<close>

definition st_anon :: state where
  "st_anon = st_alice\<lparr>session := None\<rparr>"

definition shelf_book :: "int \<Rightarrow> string \<Rightarrow> int option \<Rightarrow> int option \<Rightarrow> book_row" where
  "shelf_book i t r d =
     \<lparr>b_id = i, b_user_id = Some 1, b_title = t, b_author = None, b_isbn = None,
      b_cover_url = None, b_rating = r, b_finished_on = d, b_notes = None, b_created_at = 0\<rparr>"

text \<open>
  Alice's shelf: "banana", "Apple" and "cherry", rated 5, not rated and 3, in that
  order in the table, with Bob's book among them.
\<close>

definition st_shelf :: state where
  "st_shelf =
     \<lparr>users = [alice, bob],
      books = [shelf_book 2 ''banana'' (Some 5) (Some 10), bobs_book,
               shelf_book 3 ''Apple'' None None, shelf_book 4 ''cherry'' (Some 3) (Some 20)],
      users_id_seq = 3, books_id_seq = 5, session = Some 1\<rparr>"

text \<open>
  A larger shelf of Alice's, in table order: titles in mixed case, three books rated 4
  with different dates, two books finished on day 9, two books never finished.
\<close>

definition st_library :: state where
  "st_library =
     \<lparr>users = [alice, bob],
      books = [shelf_book 7 ''delta'' (Some 4) None, shelf_book 5 ''Echo'' (Some 4) (Some 5),
               bobs_book, shelf_book 6 ''alpha'' (Some 4) (Some 9),
               shelf_book 8 ''Charlie'' None (Some 30), shelf_book 9 ''bravo'' (Some 5) None,
               shelf_book 10 ''Foxtrot'' (Some 2) (Some 9)],
      users_id_seq = 3, books_id_seq = 11, session = Some 1\<rparr>"

text \<open>A submission whose title and ISBN are empty.\<close>

definition untitled_form :: book_form where
  "untitled_form =
     \<lparr>f_title = Some [], f_author = Some ''Anonymous'', f_isbn = Some [], f_rating = Some ''5'',
      f_notes = None, f_finished_on = Some []\<rparr>"

text \<open>An Open Library answer for ISBN 123 with both sizes, and one with the large size only.\<close>

definition answer_both :: jsval where
  "answer_both =
     Obj [(''ISBN:123'', Obj [(''title'', Str ''Dune''),
        (''cover'', Obj [(''small'', Str ''s.jpg''), (''medium'', Str ''m.jpg''),
                         (''large'', Str ''l.jpg'')])])]"

definition answer_large :: jsval where
  "answer_large = Obj [(''ISBN:123'', Obj [(''cover'', Obj [(''large'', Str ''l.jpg'')])])]"

text \<open>Environments in which the session teardown fails, and in which the lookup answers.\<close>

definition env_logout_fails :: env where
  "env_logout_fails = env0\<lparr>logout_fails := True\<rparr>"

definition env_both :: env where
  "env_both = env0\<lparr>axios_get := (\<lambda>call. Inr answer_both)\<rparr>"

definition env_large :: env where
  "env_large = env0\<lparr>axios_get := (\<lambda>call. Inr answer_large)\<rparr>"

section \<open>Basic facts about the guard and the statements\<close>

lemma requireAuth_authenticated:
  "req_user st = Some u \<Longrightarrow> requireAuth st h = h st"
  by (simp add: requireAuth_def isAuthenticated_def)

lemma filter_empty_no_match:
  "(\<forall>b \<in> set xs. \<not> w b) \<Longrightarrow> filter w xs = []"
  by (induction xs) auto

lemma map_no_match:
  "(\<forall>b \<in> set xs. \<not> w b) \<Longrightarrow> map (\<lambda>b. if w b then g b else b) xs = xs"
  by (induction xs) auto

lemma filter_not_no_match:
  "(\<forall>b \<in> set xs. \<not> w b) \<Longrightarrow> filter (\<lambda>b. \<not> w b) xs = xs"
  by (induction xs) auto

lemma update_where_no_match:
  assumes "\<forall>b \<in> set (books st). \<not> w b"
  shows "snd (update_where e w p st) = st"
    and "bind_opt (int4in e) (f_rating p) = Inr r \<Longrightarrow> bind_opt (date_in e) (f_finished_on p) = Inr d
         \<Longrightarrow> update_where e w p st = (Inr 0, st)"
  using assms
  by (auto simp: update_where_def filter_empty_no_match map_no_match split: sum.splits option.splits)

lemma delete_where_no_match:
  assumes "\<forall>b \<in> set (books st). \<not> w b"
  shows "delete_where w st = (Inr 0, st)"
  using assms by (simp add: delete_where_def filter_empty_no_match filter_not_no_match)

lemma filter_map_others:
  assumes "\<And>b. w b \<Longrightarrow> \<not> P b \<and> \<not> P (g b)"
  shows "filter P (map (\<lambda>b. if w b then g b else b) xs) = filter P xs"
  using assms by (induction xs) auto

lemma snd_answer:
  "snd (case x of (Inl a, s) \<Rightarrow> (A, s) | (Inr b, s) \<Rightarrow> (B, s)) = snd x"
  by (auto split: prod.splits sum.splits)

lemma update_where_others:
  assumes "\<And>b. w b \<Longrightarrow> b_user_id b = Some u"
  shows "filter (\<lambda>b. b_user_id b \<noteq> Some u) (books (snd (update_where e w p st)))
       = filter (\<lambda>b. b_user_id b \<noteq> Some u) (books st)"
proof -
  have "filter (\<lambda>b. b_user_id b \<noteq> Some u) (map (\<lambda>b. if w b then set_fields t p r d b else b) (books st))
      = filter (\<lambda>b. b_user_id b \<noteq> Some u) (books st)" for t r d
    by (rule filter_map_others) (simp add: assms set_fields_def)
  then show ?thesis
    by (simp add: update_where_def split: sum.splits option.splits)
qed

lemma delete_where_others:
  assumes "\<And>b. w b \<Longrightarrow> b_user_id b = Some u"
  shows "filter (\<lambda>b. b_user_id b \<noteq> Some u) (books (snd (delete_where w st)))
       = filter (\<lambda>b. b_user_id b \<noteq> Some u) (books st)"
  using assms by (auto simp: delete_where_def intro!: filter_cong)

lemma foreign_row_no_match:
  assumes "b \<in> set (books st)" "b_user_id b = Some u2" "u1 \<noteq> u2"
    and "distinct (map b_id (books st))"
  shows "\<forall>r \<in> set (books st). \<not> owned_match (b_id b) u1 r"
proof
  fix r assume r: "r \<in> set (books st)"
  show "\<not> owned_match (b_id b) u1 r"
  proof
    assume "owned_match (b_id b) u1 r"
    then have "b_id r = b_id b" "b_user_id r = Some u1" by (simp_all add: owned_match_def)
    with assms r have "r = b" by (meson distinct_map inj_onD)
    with \<open>b_user_id r = Some u1\<close> assms show False by simp
  qed
qed

lemma bind_opt_cases:
  "bind_opt conv p \<noteq> Inl invalid_text_representation \<Longrightarrow> \<exists>v. bind_opt conv p = Inr v"
  by (auto simp: bind_opt_def split: option.splits)

lemma dec_int_1: "dec_int ''1'' = Some 1"
  by (simp add: dec_int_def dec_digit_def)

lemma req_user_st_alice: "req_user st_alice = Some (1, ''alice@example.com'')"
  by (simp add: req_user_def deserializeUser_def st_alice_def alice_def bob_def)

section \<open>Ownership\<close>

text \<open>
  Claim C1, as it holds of the authenticated server. Let the request come from user
  \<open>u1\<close>, let \<open>b\<close> be a book of another user \<open>u2\<close> in a table whose ids are distinct (the
  primary key), and let the path parameter denote \<open>b\<close>'s id. Then the edit form answers
  404 "Book not found", the update leaves the state as it is, and the delete redirects
  home with the state as it is. Moreover, for every path parameter \<open>i\<close> and every
  submitted form: each row the read returns belongs to \<open>u1\<close>, and the rows that do not
  belong to \<open>u1\<close> are the same after the update and after the delete as before.
\<close>

theorem cross_user_isolation:
  assumes "req_user st = Some (u1, m)" and "u1 \<noteq> u2"
    and "b \<in> set (books st)" and "b_user_id b = Some u2"
    and "distinct (map b_id (books st))" and "int4in e id_param = Some (b_id b)"
  shows "get_books_id_edit e id_param st = (Send 404 ''Book not found'', st)
       \<and> snd (post_books_id_edit e id_param f st) = st
       \<and> post_books_id_delete e id_param st = (Redirect ''/'', st)
       \<and> (\<forall>rows. select_book e i u1 st = Inr rows \<longrightarrow> (\<forall>r \<in> set rows. b_user_id r = Some u1))
       \<and> filter (\<lambda>r. b_user_id r \<noteq> Some u1) (books (snd (post_books_id_edit e i f st)))
           = filter (\<lambda>r. b_user_id r \<noteq> Some u1) (books st)
       \<and> filter (\<lambda>r. b_user_id r \<noteq> Some u1) (books (snd (post_books_id_delete e i st)))
           = filter (\<lambda>r. b_user_id r \<noteq> Some u1) (books st)"
proof -
  have nm: "\<forall>r \<in> set (books st). \<not> owned_match (b_id b) u1 r"
    using assms(3,4,2,5) by (rule foreign_row_no_match)
  have own: "owned_match n u1 r \<Longrightarrow> b_user_id r = Some u1" for n r
    by (simp add: owned_match_def)
  have 1: "get_books_id_edit e id_param st = (Send 404 ''Book not found'', st)"
    using assms(1,6) nm
    by (simp add: get_books_id_edit_def requireAuth_authenticated h_get_books_id_edit_def
        select_book_def bind_int_def filter_empty_no_match)
  have 2: "snd (post_books_id_edit e id_param f st) = st"
    using assms(1,6) update_where_no_match(1)[OF nm, of e "book_params f"]
    by (simp add: post_books_id_edit_def requireAuth_authenticated h_post_books_id_edit_def
        update_book_def bind_int_def snd_answer)
  have 3: "post_books_id_delete e id_param st = (Redirect ''/'', st)"
    using assms(1,6) delete_where_no_match[OF nm]
    by (simp add: post_books_id_delete_def requireAuth_authenticated h_post_books_id_delete_def
        delete_book_def bind_int_def)
  have 4: "\<forall>rows. select_book e i u1 st = Inr rows \<longrightarrow> (\<forall>r \<in> set rows. b_user_id r = Some u1)"
    by (auto simp: select_book_def bind_int_def owned_match_def split: option.splits)
  have 5: "filter (\<lambda>r. b_user_id r \<noteq> Some u1) (books (snd (post_books_id_edit e i f st)))
           = filter (\<lambda>r. b_user_id r \<noteq> Some u1) (books st)"
    using assms(1) update_where_others[of "owned_match n u1" u1 e "book_params f" st for n, OF own]
    by (simp add: post_books_id_edit_def requireAuth_authenticated h_post_books_id_edit_def
        update_book_def bind_int_def snd_answer split: option.splits)
  have 6: "filter (\<lambda>r. b_user_id r \<noteq> Some u1) (books (snd (post_books_id_delete e i st)))
           = filter (\<lambda>r. b_user_id r \<noteq> Some u1) (books st)"
    using assms(1) delete_where_others[of "owned_match n u1" u1 st for n, OF own]
    by (simp add: post_books_id_delete_def requireAuth_authenticated h_post_books_id_delete_def
        delete_book_def bind_int_def snd_answer split: option.splits)
  from 1 2 3 4 5 6 show ?thesis by blast
qed

text \<open>
  Claim C1, witness: Alice (user 1) asks for, edits and deletes Bob's book 1.
\<close>

theorem cross_user_isolation_witness:
  "get_books_id_edit env0 ''1'' st_alice = (Send 404 ''Book not found'', st_alice)
   \<and> snd (post_books_id_edit env0 ''1'' untitled_form st_alice) = st_alice
   \<and> post_books_id_delete env0 ''1'' st_alice = (Redirect ''/'', st_alice)"
proof -
  have a: "req_user st_alice = Some (1, ''alice@example.com'')"
    by (rule req_user_st_alice)
  have b: "(1::int) \<noteq> 2" by simp
  have c: "bobs_book \<in> set (books st_alice)" by (simp add: st_alice_def)
  have d: "b_user_id bobs_book = Some 2" by (simp add: bobs_book_def)
  have e: "distinct (map b_id (books st_alice))" by (simp add: st_alice_def)
  have f: "int4in env0 ''1'' = Some (b_id bobs_book)"
    by (simp add: env0_def dec_int_1 bobs_book_def)
  from cross_user_isolation [OF a b c d e f, of untitled_form "''1''"] show ?thesis by simp
qed

text \<open>
  Claim C1, counterexample: the server of \<open>src/index.js\<close> selects by \<open>id\<close> alone. On the
  same tables, with Alice's session, its edit form shows Bob's book, its update
  overwrites it and its delete removes it.
\<close>

theorem indexjs_unscoped_counterexample:
  "session st_alice = Some 1 \<and> b_user_id bobs_book = Some 2
   \<and> indexjs_get_books_id_edit env0 ''1'' st_alice
       = (Render_book_form (Some bobs_book) ''/books/1/edit'' ''POST'' ''Edit book'', st_alice)
   \<and> books (snd (indexjs_post_books_id_edit env0 ''1'' untitled_form st_alice))
       = [bobs_book\<lparr>b_title := [], b_author := Some ''Anonymous'', b_rating := Some 5\<rparr>]
   \<and> books (snd (indexjs_post_books_id_delete env0 ''1'' st_alice)) = []"
  by (simp add: st_alice_def bobs_book_def indexjs_get_books_id_edit_def indexjs_select_book_def
      indexjs_post_books_id_edit_def indexjs_update_book_def indexjs_post_books_id_delete_def
      indexjs_delete_book_def update_where_def delete_where_def bind_int_def bind_opt_def
      id_match_def env0_def dec_int_1 dec_int_def dec_digit_def book_params_def or_null_def
      untitled_form_def set_fields_def)

section \<open>Update and delete without a matching row\<close>

lemma update_where_refused:
  "bind_opt (int4in e) (f_rating p) = Inl err \<or> bind_opt (date_in e) (f_finished_on p) = Inl err
   \<Longrightarrow> \<exists>err'. update_where e w p st = (Inl err', st)"
  by (auto simp: update_where_def split: sum.splits)

lemma dec_int_samples:
  "dec_int ''7'' = Some 7" "dec_int ''abc'' = None" "dec_int ''99999999999'' = None"
  "dec_int ''5'' = Some 5"
  by (simp_all add: dec_int_def dec_digit_def)

text \<open>
  Claim C5, as it holds of the code. Let the request come from user \<open>uid\<close> and let no
  row have both the id the path parameter denotes and \<open>uid\<close> as its owner. Then the
  update and the delete leave the state, and so the books table, as it is. When the
  store accepts the statement's parameters (the id converts to an integer and, for the
  update, the rating and the date convert), the statement completes with zero rows
  affected and the handler redirects home: the missing row is not an error. When the
  store refuses one of them, the handler's \<open>catch\<close> answers 500.
\<close>

theorem no_match_outcomes:
  assumes "req_user st = Some (uid, m)"
    and "\<forall>b \<in> set (books st). \<not> (int4in e id_param = Some (b_id b) \<and> b_user_id b = Some uid)"
  shows "snd (post_books_id_edit e id_param f st) = st
       \<and> snd (post_books_id_delete e id_param st) = st
       \<and> (int4in e id_param \<noteq> None \<longrightarrow>
            delete_book e id_param uid st = (Inr 0, st)
          \<and> post_books_id_delete e id_param st = (Redirect ''/'', st))
       \<and> (int4in e id_param \<noteq> None
            \<and> bind_opt (int4in e) (or_null (f_rating f)) \<noteq> Inl invalid_text_representation
            \<and> bind_opt (date_in e) (or_null (f_finished_on f)) \<noteq> Inl invalid_text_representation \<longrightarrow>
            update_book e (book_params f) id_param uid st = (Inr 0, st)
          \<and> post_books_id_edit e id_param f st = (Redirect ''/'', st))
       \<and> (int4in e id_param = None \<longrightarrow>
            post_books_id_delete e id_param st = (Send 500 ''Error deleting book'', st)
          \<and> post_books_id_edit e id_param f st = (Send 500 ''Error updating book'', st))
       \<and> (bind_opt (int4in e) (or_null (f_rating f)) = Inl invalid_text_representation
            \<or> bind_opt (date_in e) (or_null (f_finished_on f)) = Inl invalid_text_representation \<longrightarrow>
            post_books_id_edit e id_param f st = (Send 500 ''Error updating book'', st))"
proof -
  have ref: "post_books_id_edit e id_param f st = (Send 500 ''Error updating book'', st)"
    if bad: "bind_opt (int4in e) (or_null (f_rating f)) = Inl invalid_text_representation
            \<or> bind_opt (date_in e) (or_null (f_finished_on f)) = Inl invalid_text_representation"
  proof -
    from bad have "bind_opt (int4in e) (f_rating (book_params f)) = Inl invalid_text_representation
        \<or> bind_opt (date_in e) (f_finished_on (book_params f)) = Inl invalid_text_representation"
      by (simp add: book_params_def)
    then have "\<exists>err'. update_where e w (book_params f) st = (Inl err', st)" for w
      by (rule update_where_refused)
    then have "\<exists>err'. update_book e (book_params f) id_param uid st = (Inl err', st)"
      by (simp add: update_book_def bind_int_def split: option.splits)
    with assms(1) show ?thesis
      by (auto simp: post_books_id_edit_def requireAuth_authenticated h_post_books_id_edit_def)
  qed
  show ?thesis
  proof (cases "int4in e id_param")
    case None
    with assms(1) ref show ?thesis
      by (simp add: post_books_id_edit_def post_books_id_delete_def requireAuth_authenticated
          h_post_books_id_edit_def h_post_books_id_delete_def update_book_def delete_book_def
          bind_int_def)
  next
    case (Some n)
    with assms(2) have nm: "\<forall>b \<in> set (books st). \<not> owned_match n uid b"
      by (auto simp: owned_match_def)
    have del: "delete_book e id_param uid st = (Inr 0, st)"
      using Some delete_where_no_match [OF nm] by (simp add: delete_book_def bind_int_def)
    have upd_snd: "snd (update_book e (book_params f) id_param uid st) = st"
      using Some update_where_no_match(1) [OF nm] by (simp add: update_book_def bind_int_def)
    have upd: "update_book e (book_params f) id_param uid st = (Inr 0, st)"
      if ok: "bind_opt (int4in e) (or_null (f_rating f)) \<noteq> Inl invalid_text_representation"
        "bind_opt (date_in e) (or_null (f_finished_on f)) \<noteq> Inl invalid_text_representation"
    proof -
      obtain r d where "bind_opt (int4in e) (or_null (f_rating f)) = Inr r"
        and "bind_opt (date_in e) (or_null (f_finished_on f)) = Inr d"
        using ok bind_opt_cases by blast
      then have r: "bind_opt (int4in e) (f_rating (book_params f)) = Inr r"
        and d: "bind_opt (date_in e) (f_finished_on (book_params f)) = Inr d"
        by (simp_all add: book_params_def)
      from Some update_where_no_match(2) [OF nm r d] show ?thesis
        by (simp add: update_book_def bind_int_def)
    qed
    have 1: "snd (post_books_id_edit e id_param f st) = st"
      using assms(1) upd_snd
      by (simp add: post_books_id_edit_def requireAuth_authenticated h_post_books_id_edit_def
          snd_answer)
    have 2: "post_books_id_delete e id_param st = (Redirect ''/'', st)"
      using assms(1) del
      by (simp add: post_books_id_delete_def requireAuth_authenticated h_post_books_id_delete_def)
    have 3: "post_books_id_edit e id_param f st = (Redirect ''/'', st)"
      if "bind_opt (int4in e) (or_null (f_rating f)) \<noteq> Inl invalid_text_representation"
        and "bind_opt (date_in e) (or_null (f_finished_on f)) \<noteq> Inl invalid_text_representation"
      using assms(1) upd [OF that]
      by (simp add: post_books_id_edit_def requireAuth_authenticated h_post_books_id_edit_def)
    from 1 2 3 del upd ref Some show ?thesis by simp
  qed
qed

text \<open>
  Claim C5, witness: Alice updates and deletes book 7, which does not exist; she
  deletes the book "abc", and updates book 7 with the rating "abc".
\<close>

theorem no_match_outcomes_witness:
  "snd (post_books_id_edit env0 ''7'' untitled_form st_alice) = st_alice
   \<and> delete_book env0 ''7'' 1 st_alice = (Inr 0, st_alice)
   \<and> post_books_id_delete env0 ''7'' st_alice = (Redirect ''/'', st_alice)
   \<and> update_book env0 (book_params untitled_form) ''7'' 1 st_alice = (Inr 0, st_alice)
   \<and> post_books_id_edit env0 ''7'' untitled_form st_alice = (Redirect ''/'', st_alice)
   \<and> post_books_id_delete env0 ''abc'' st_alice = (Send 500 ''Error deleting book'', st_alice)
   \<and> post_books_id_edit env0 ''7'' (untitled_form\<lparr>f_rating := Some ''abc''\<rparr>) st_alice
       = (Send 500 ''Error updating book'', st_alice)"
proof -
  have a: "req_user st_alice = Some (1, ''alice@example.com'')"
    by (rule req_user_st_alice)
  have i: "int4in env0 ''7'' = Some 7" and j: "int4in env0 ''abc'' = None"
    by (simp_all add: env0_def dec_int_samples)
  have b: "\<forall>b \<in> set (books st_alice).
             \<not> (int4in env0 ''7'' = Some (b_id b) \<and> b_user_id b = Some 1)"
    by (simp add: i st_alice_def bobs_book_def)
  have c: "\<forall>b \<in> set (books st_alice).
             \<not> (int4in env0 ''abc'' = Some (b_id b) \<and> b_user_id b = Some 1)"
    by (simp add: j)
  have r: "bind_opt (int4in env0) (or_null (f_rating untitled_form)) \<noteq> Inl invalid_text_representation"
    by (simp add: bind_opt_def or_null_def untitled_form_def env0_def dec_int_samples)
  have d: "bind_opt (date_in env0) (or_null (f_finished_on untitled_form)) \<noteq> Inl invalid_text_representation"
    by (simp add: bind_opt_def or_null_def untitled_form_def)
  have r': "bind_opt (int4in env0) (or_null (f_rating (untitled_form\<lparr>f_rating := Some ''abc''\<rparr>)))
      = Inl invalid_text_representation"
    by (simp add: bind_opt_def or_null_def env0_def dec_int_samples)
  have 1: "snd (post_books_id_edit env0 ''7'' untitled_form st_alice) = st_alice
   \<and> delete_book env0 ''7'' 1 st_alice = (Inr 0, st_alice)
   \<and> post_books_id_delete env0 ''7'' st_alice = (Redirect ''/'', st_alice)
   \<and> update_book env0 (book_params untitled_form) ''7'' 1 st_alice = (Inr 0, st_alice)
   \<and> post_books_id_edit env0 ''7'' untitled_form st_alice = (Redirect ''/'', st_alice)"
    using no_match_outcomes [OF a b, of untitled_form] i r d by simp
  have 2: "post_books_id_delete env0 ''abc'' st_alice = (Send 500 ''Error deleting book'', st_alice)"
    using no_match_outcomes [OF a c, of untitled_form] j by simp
  have 3: "post_books_id_edit env0 ''7'' (untitled_form\<lparr>f_rating := Some ''abc''\<rparr>) st_alice
       = (Send 500 ''Error updating book'', st_alice)"
    using no_match_outcomes [OF a b, of "untitled_form\<lparr>f_rating := Some ''abc''\<rparr>"] r' by blast
  from 1 2 3 show ?thesis by simp
qed

text \<open>
  Claim C5, counterexample: no row matches the id "abc" or the id 99999999999, which is
  no \<open>integer\<close>, yet the delete and the update do not complete without error: the store
  refuses the parameter and the handler answers 500.
\<close>

theorem malformed_parameter_counterexample:
  "req_user st_alice = Some (1, ''alice@example.com'')
   \<and> filter (\<lambda>b. int4in env0 ''abc'' = Some (b_id b) \<and> b_user_id b = Some 1) (books st_alice) = []
   \<and> post_books_id_delete env0 ''abc'' st_alice = (Send 500 ''Error deleting book'', st_alice)
   \<and> post_books_id_edit env0 ''abc'' untitled_form st_alice
       = (Send 500 ''Error updating book'', st_alice)
   \<and> filter (\<lambda>b. int4in env0 ''99999999999'' = Some (b_id b) \<and> b_user_id b = Some 1)
        (books st_alice) = []
   \<and> post_books_id_delete env0 ''99999999999'' st_alice
       = (Send 500 ''Error deleting book'', st_alice)"
  by (simp add: req_user_st_alice env0_def dec_int_samples post_books_id_delete_def
      post_books_id_edit_def requireAuth_authenticated h_post_books_id_delete_def
      h_post_books_id_edit_def delete_book_def update_book_def bind_int_def)

section \<open>The title\<close>

text \<open>
  Claim C10. The parameter array of every submission carries the title as submitted
  and each of the five other fields through \<open>|| null\<close>, which turns an absent and an
  empty field into \<open>null\<close> and keeps every other. For a submission with any title \<open>t\<close>,
  the empty one included, whose rating and date the store accepts: the create handler
  redirects home and has appended a row whose title is \<open>t\<close>; the update handler
  redirects home and has written \<open>t\<close> to the rows it selects. The same holds of both
  handlers of \<open>src/index.js\<close>. No handler answers an empty title with a validation
  error.
\<close>

theorem title_is_forwarded:
  "book_params f =
     \<lparr>f_title = f_title f, f_author = or_null (f_author f), f_isbn = or_null (f_isbn f),
      f_rating = or_null (f_rating f), f_notes = or_null (f_notes f),
      f_finished_on = or_null (f_finished_on f)\<rparr>
   \<and> or_null None = None \<and> or_null (Some []) = None
   \<and> (s \<noteq> [] \<longrightarrow> or_null (Some s) = Some s)
   \<and> (f_title f = Some t
        \<and> bind_opt (int4in e) (or_null (f_rating f)) = Inr r
        \<and> bind_opt (date_in e) (or_null (f_finished_on f)) = Inr d \<longrightarrow>
        (req_user st = Some (uid, m) \<and> books_id_seq st \<notin> b_id ` set (books st) \<longrightarrow>
            post_books e f st =
              (Redirect ''/'',
               st\<lparr>books_id_seq := books_id_seq st + 1,
                  books := books st @
                    [\<lparr>b_id = books_id_seq st, b_user_id = Some uid, b_title = t,
                      b_author = or_null (f_author f), b_isbn = or_null (f_isbn f),
                      b_cover_url = None, b_rating = r, b_finished_on = d,
                      b_notes = or_null (f_notes f), b_created_at = now e\<rparr>]\<rparr>))
       \<and> (req_user st = Some (uid, m) \<and> int4in e id_param = Some n \<longrightarrow>
            post_books_id_edit e id_param f st =
              (Redirect ''/'',
               st\<lparr>books := map (\<lambda>b. if b_id b = n \<and> b_user_id b = Some uid
                                     then b\<lparr>b_title := t, b_author := or_null (f_author f),
                                            b_isbn := or_null (f_isbn f), b_rating := r,
                                            b_notes := or_null (f_notes f), b_finished_on := d\<rparr>
                                     else b) (books st)\<rparr>))
       \<and> (books_id_seq st \<notin> b_id ` set (books st) \<longrightarrow>
            indexjs_post_books e f st =
              (Redirect ''/'',
               st\<lparr>books_id_seq := books_id_seq st + 1,
                  books := books st @
                    [\<lparr>b_id = books_id_seq st, b_user_id = None, b_title = t,
                      b_author = or_null (f_author f), b_isbn = or_null (f_isbn f),
                      b_cover_url = None, b_rating = r, b_finished_on = d,
                      b_notes = or_null (f_notes f), b_created_at = now e\<rparr>]\<rparr>))
       \<and> (int4in e id_param = Some n \<longrightarrow>
            indexjs_post_books_id_edit e id_param f st =
              (Redirect ''/'',
               st\<lparr>books := map (\<lambda>b. if b_id b = n
                                     then b\<lparr>b_title := t, b_author := or_null (f_author f),
                                            b_isbn := or_null (f_isbn f), b_rating := r,
                                            b_notes := or_null (f_notes f), b_finished_on := d\<rparr>
                                     else b) (books st)\<rparr>)))"
proof -
  have p: "book_params f =
     \<lparr>f_title = f_title f, f_author = or_null (f_author f), f_isbn = or_null (f_isbn f),
      f_rating = or_null (f_rating f), f_notes = or_null (f_notes f),
      f_finished_on = or_null (f_finished_on f)\<rparr>"
    by (simp add: book_params_def)
  have o: "or_null None = None" "or_null (Some []) = None" "s \<noteq> [] \<Longrightarrow> or_null (Some s) = Some s"
    by (simp_all add: or_null_def)
  have main: ?thesis
    if t: "f_title f = Some t"
      and r: "bind_opt (int4in e) (or_null (f_rating f)) = Inr r"
      and d: "bind_opt (date_in e) (or_null (f_finished_on f)) = Inr d"
  proof -
    have ins: "books_id_seq st \<notin> b_id ` set (books st) \<Longrightarrow>
        insert_book e (book_params f) u st =
          (Inr 1, st\<lparr>books_id_seq := books_id_seq st + 1,
                    books := books st @
                      [\<lparr>b_id = books_id_seq st, b_user_id = u, b_title = t,
                        b_author = or_null (f_author f), b_isbn = or_null (f_isbn f),
                        b_cover_url = None, b_rating = r, b_finished_on = d,
                        b_notes = or_null (f_notes f), b_created_at = now e\<rparr>]\<rparr>)" for u
      using t r d by (simp add: p insert_book_def Let_def)
    have upd: "update_where e w (book_params f) st =
          (Inr (length (filter w (books st))),
           st\<lparr>books := map (\<lambda>b. if w b
                                       then b\<lparr>b_title := t, b_author := or_null (f_author f),
                                              b_isbn := or_null (f_isbn f), b_rating := r,
                                              b_notes := or_null (f_notes f), b_finished_on := d\<rparr>
                                       else b) (books st)\<rparr>)" for w
      using t r d by (simp add: p update_where_def set_fields_def)
    have 1: "post_books e f st = (Redirect ''/'', snd (insert_book e (book_params f) (Some uid) st))"
      if "req_user st = Some (uid, m)" "books_id_seq st \<notin> b_id ` set (books st)"
      using that ins [of "Some uid"]
      by (simp add: post_books_def requireAuth_authenticated h_post_books_def)
    have 2: "post_books_id_edit e id_param f st =
        (Redirect ''/'', snd (update_where e (owned_match n uid) (book_params f) st))"
      if "req_user st = Some (uid, m)" "int4in e id_param = Some n"
      using that upd [of "owned_match n uid"]
      by (simp add: post_books_id_edit_def requireAuth_authenticated h_post_books_id_edit_def
          update_book_def bind_int_def)
    have 3: "indexjs_post_books e f st = (Redirect ''/'', snd (insert_book e (book_params f) None st))"
      if "books_id_seq st \<notin> b_id ` set (books st)"
      using that ins [of None] by (simp add: indexjs_post_books_def)
    have 4: "indexjs_post_books_id_edit e id_param f st =
        (Redirect ''/'', snd (update_where e (id_match n) (book_params f) st))"
      if "int4in e id_param = Some n"
      using that upd [of "id_match n"]
      by (simp add: indexjs_post_books_id_edit_def indexjs_update_book_def bind_int_def)
    show ?thesis
      using p o 1 2 3 4 ins upd
      by (simp add: owned_match_def [abs_def] id_match_def [abs_def])
  qed
  show ?thesis
  proof (cases "f_title f = Some t
        \<and> bind_opt (int4in e) (or_null (f_rating f)) = Inr r
        \<and> bind_opt (date_in e) (or_null (f_finished_on f)) = Inr d")
    case True
    then show ?thesis using main by blast
  next
    case False
    then show ?thesis using p o by blast
  qed
qed

text \<open>
  Claim C10, witness: Alice submits the form with the empty title, and the same form
  with the title "Emma"; the server of \<open>src/index.js\<close> receives the empty title as an
  edit of book 1.
\<close>

theorem title_is_forwarded_witness:
  "book_params untitled_form =
     \<lparr>f_title = Some [], f_author = Some ''Anonymous'', f_isbn = None, f_rating = Some ''5'',
      f_notes = None, f_finished_on = None\<rparr>
   \<and> post_books env0 untitled_form st_alice =
       (Redirect ''/'',
        st_alice\<lparr>books_id_seq := 3,
          books := [bobs_book,
            \<lparr>b_id = 2, b_user_id = Some 1, b_title = [], b_author = Some ''Anonymous'',
             b_isbn = None, b_cover_url = None, b_rating = Some 5, b_finished_on = None,
             b_notes = None, b_created_at = 0\<rparr>]\<rparr>)
   \<and> post_books env0 (untitled_form\<lparr>f_title := Some ''Emma''\<rparr>) st_alice =
       (Redirect ''/'',
        st_alice\<lparr>books_id_seq := 3,
          books := [bobs_book,
            \<lparr>b_id = 2, b_user_id = Some 1, b_title = ''Emma'', b_author = Some ''Anonymous'',
             b_isbn = None, b_cover_url = None, b_rating = Some 5, b_finished_on = None,
             b_notes = None, b_created_at = 0\<rparr>]\<rparr>)
   \<and> indexjs_post_books_id_edit env0 ''1'' untitled_form st_alice =
       (Redirect ''/'',
        st_alice\<lparr>books := [bobs_book\<lparr>b_title := [], b_author := Some ''Anonymous'',
                                      b_rating := Some 5\<rparr>]\<rparr>)"
proof -
  let ?g = "untitled_form\<lparr>f_title := Some ''Emma''\<rparr>"
  have t: "f_title untitled_form = Some []" "f_title ?g = Some ''Emma''"
    by (simp_all add: untitled_form_def)
  have r: "bind_opt (int4in env0) (or_null (f_rating untitled_form)) = Inr (Some 5)"
    "bind_opt (int4in env0) (or_null (f_rating ?g)) = Inr (Some 5)"
    by (simp_all add: bind_opt_def or_null_def untitled_form_def env0_def dec_int_samples)
  have d: "bind_opt (date_in env0) (or_null (f_finished_on untitled_form)) = Inr None"
    "bind_opt (date_in env0) (or_null (f_finished_on ?g)) = Inr None"
    by (simp_all add: bind_opt_def or_null_def untitled_form_def)
  have i: "int4in env0 ''1'' = Some 1" by (simp add: env0_def dec_int_1)
  have q: "books_id_seq st_alice \<notin> b_id ` set (books st_alice)"
    by (simp add: st_alice_def bobs_book_def)
  note a = req_user_st_alice
  have 0: "book_params untitled_form =
     \<lparr>f_title = f_title untitled_form, f_author = or_null (f_author untitled_form),
      f_isbn = or_null (f_isbn untitled_form), f_rating = or_null (f_rating untitled_form),
      f_notes = or_null (f_notes untitled_form),
      f_finished_on = or_null (f_finished_on untitled_form)\<rparr>"
    using title_is_forwarded [of untitled_form] by blast
  have 1: "post_books env0 untitled_form st_alice =
              (Redirect ''/'',
               st_alice\<lparr>books_id_seq := books_id_seq st_alice + 1,
                  books := books st_alice @
                    [\<lparr>b_id = books_id_seq st_alice, b_user_id = Some 1, b_title = [],
                      b_author = or_null (f_author untitled_form),
                      b_isbn = or_null (f_isbn untitled_form),
                      b_cover_url = None, b_rating = Some 5, b_finished_on = None,
                      b_notes = or_null (f_notes untitled_form), b_created_at = now env0\<rparr>]\<rparr>)"
    using title_is_forwarded [of untitled_form _ "[]" env0 "Some 5" None st_alice 1
        "''alice@example.com''"] t(1) r(1) d(1) a q
    by blast
  have 2: "post_books env0 ?g st_alice =
              (Redirect ''/'',
               st_alice\<lparr>books_id_seq := books_id_seq st_alice + 1,
                  books := books st_alice @
                    [\<lparr>b_id = books_id_seq st_alice, b_user_id = Some 1, b_title = ''Emma'',
                      b_author = or_null (f_author ?g), b_isbn = or_null (f_isbn ?g),
                      b_cover_url = None, b_rating = Some 5, b_finished_on = None,
                      b_notes = or_null (f_notes ?g), b_created_at = now env0\<rparr>]\<rparr>)"
    using title_is_forwarded [of ?g _ "''Emma''" env0 "Some 5" None st_alice 1
        "''alice@example.com''"] t(2) r(2) d(2) a q
    by blast
  have 3: "indexjs_post_books_id_edit env0 ''1'' untitled_form st_alice =
              (Redirect ''/'',
               st_alice\<lparr>books := map (\<lambda>b. if b_id b = 1
                     then b\<lparr>b_title := [], b_author := or_null (f_author untitled_form),
                            b_isbn := or_null (f_isbn untitled_form), b_rating := Some 5,
                            b_notes := or_null (f_notes untitled_form), b_finished_on := None\<rparr>
                     else b) (books st_alice)\<rparr>)"
    using title_is_forwarded [of untitled_form _ "[]" env0 "Some 5" None st_alice _ _ "''1''" 1]
      t(1) r(1) d(1) i
    by blast
  from 0 1 2 3 show ?thesis
    by (simp add: untitled_form_def or_null_def st_alice_def bobs_book_def env0_def)
qed

section \<open>The guard\<close>

text \<open>
  Claim C2, as it holds of the code. For a request without a valid session, each of the
  six routes registered with \<open>requireAuth\<close> (the listing, the two book forms, create,
  update, delete) answers with a redirect to \<open>/login\<close> and the state as it was, without
  entering its handler; the guard answers so whatever handler follows it, and with a
  valid session it hands the state on to the handler as it is. \<open>POST /logout\<close> is
  registered without the guard: its handler runs, and answers 500 when \<open>req.logout\<close>
  reports an error and otherwise clears the session and redirects to \<open>/login\<close>.
\<close>

theorem guard_redirects_unauthenticated:
  "(\<not> isAuthenticated st \<longrightarrow>
      (guarded r \<longrightarrow> app e r st = (Redirect ''/login'', st))
    \<and> requireAuth st h = (Redirect ''/login'', st))
   \<and> (isAuthenticated st \<longrightarrow> requireAuth st h = h st)
   \<and> app e POST_logout st =
       (if logout_fails e then (Send 500 ''Error logging out'', st)
        else (Redirect ''/login'', st\<lparr>session := None\<rparr>))"
proof -
  have g: "requireAuth st k = (Redirect ''/login'', st)" if "\<not> isAuthenticated st" for k
    using that by (simp add: requireAuth_def)
  have "app e r st = (Redirect ''/login'', st)" if "\<not> isAuthenticated st" "guarded r"
    using that(2)
    by (cases r)
      (simp_all add: g [OF that(1)] get_root_def get_books_new_def get_books_id_edit_def
        post_books_def post_books_id_edit_def post_books_id_delete_def)
  then show ?thesis by (simp add: g post_logout_def requireAuth_def)
qed

lemma not_authenticated_st_anon: "\<not> isAuthenticated st_anon"
  by (simp add: isAuthenticated_def req_user_def st_anon_def)

text \<open>
  Claim C2, witness: without a session, the delete and the listing redirect to \<open>/login\<close>
  and change nothing; so does a logout that succeeds.
\<close>

theorem guard_redirects_unauthenticated_witness:
  "app env0 (POST_books_id_delete ''1'') st_anon = (Redirect ''/login'', st_anon)
   \<and> app env0 (GET_root None) st_anon = (Redirect ''/login'', st_anon)
   \<and> app env0 POST_logout st_anon = (Redirect ''/login'', st_anon)"
proof -
  have 1: "app env0 (POST_books_id_delete ''1'') st_anon = (Redirect ''/login'', st_anon)"
    using guard_redirects_unauthenticated [of st_anon "POST_books_id_delete ''1''" env0]
      not_authenticated_st_anon
    by simp
  have 2: "app env0 (GET_root None) st_anon = (Redirect ''/login'', st_anon)"
    using guard_redirects_unauthenticated [of st_anon "GET_root None" env0]
      not_authenticated_st_anon
    by simp
  have 3: "app env0 POST_logout st_anon = (Redirect ''/login'', st_anon)"
    using guard_redirects_unauthenticated [of st_anon POST_logout env0]
    by (simp add: env0_def st_anon_def)
  from 1 2 3 show ?thesis by simp
qed

text \<open>
  Claim C2, counterexample: \<open>POST /logout\<close> is listed as requiring authentication, yet a
  request without a session reaches its handler, which answers 500 "Error logging out"
  when the session teardown fails, where the guard would have redirected to \<open>/login\<close>.
\<close>

theorem logout_unguarded_counterexample:
  "spec_auth_required POST_logout \<and> \<not> isAuthenticated st_anon
   \<and> app env_logout_fails POST_logout st_anon = (Send 500 ''Error logging out'', st_anon)"
  by (simp add: spec_auth_required_def not_authenticated_st_anon post_logout_def
      env_logout_fails_def env0_def)

section \<open>Login failures\<close>

text \<open>
  Claim C3. Let \<open>email1\<close> belong to no user, and let \<open>email2\<close> belong to a user whose
  stored hash \<open>password2\<close> does not match. Then the verify callback fails both attempts
  with the same message, "Invalid email or password", and \<open>POST /login\<close> answers both
  with the same redirect to \<open>/login?error=1\<close> and the same, unchanged state; the login
  page that redirect leads to shows the one message.
\<close>

theorem login_failures_indistinguishable:
  assumes "email1 \<notin> u_email ` set (users st)"
    and "filter (\<lambda>u. u_email u = email2) (users st) = user # rest"
    and "\<not> bcrypt_compare e password2 (u_password user)"
  shows "local_verify e email1 password1 st = Verify_fail ''Invalid email or password''
       \<and> local_verify e email2 password2 st = Verify_fail ''Invalid email or password''
       \<and> post_login e email1 password1 st = (Redirect ''/login?error=1'', st)
       \<and> post_login e email2 password2 st = (Redirect ''/login?error=1'', st)
       \<and> (\<not> isAuthenticated st \<longrightarrow>
            get_login (Some ''1'') st = (Render_login (Some ''Invalid email or password''), st))"
proof -
  have "filter (\<lambda>u. u_email u = email1) (users st) = []"
    using assms(1) by (auto simp: filter_empty_conv)
  then have 1: "local_verify e email1 password1 st = Verify_fail ''Invalid email or password''"
    by (simp add: local_verify_def)
  have 2: "local_verify e email2 password2 st = Verify_fail ''Invalid email or password''"
    using assms(2,3) by (simp add: local_verify_def)
  from 1 2 show ?thesis by (simp add: post_login_def get_login_def or_null_def)
qed

text \<open>
  Claim C3, witness: nobody is registered as Carol, and "guess" is not Alice's
  password.
\<close>

theorem login_failures_indistinguishable_witness:
  "post_login env0 ''carol@example.com'' ''wonderland'' st_anon = (Redirect ''/login?error=1'', st_anon)
   \<and> post_login env0 ''alice@example.com'' ''guess'' st_anon = (Redirect ''/login?error=1'', st_anon)
   \<and> local_verify env0 ''carol@example.com'' ''wonderland'' st_anon
       = local_verify env0 ''alice@example.com'' ''guess'' st_anon"
proof -
  have a: "''carol@example.com'' \<notin> u_email ` set (users st_anon)"
    by (simp add: st_anon_def st_alice_def alice_def bob_def)
  have b: "filter (\<lambda>u. u_email u = ''alice@example.com'') (users st_anon) = alice # []"
    by (simp add: st_anon_def st_alice_def alice_def bob_def)
  have c: "\<not> bcrypt_compare env0 ''guess'' (u_password alice)"
    by (simp add: env0_def alice_def)
  from login_failures_indistinguishable [OF a b c, of "''wonderland''"] show ?thesis by simp
qed


section \<open>Registration\<close>





section \<open>The cover lookup's results\<close>

text \<open>
  Claim C6. Without an ISBN, or with the empty one, \<open>fetchCoverUrl\<close> returns \<open>null\<close> and
  makes no outbound request. With an ISBN it makes exactly one request; it returns
  \<open>null\<close> when the request throws and when the body is not an object; on an object it
  returns the entry's medium cover if that is truthy, else its large cover if that is
  truthy, else \<open>null\<close>. \<open>GET /api/cover/:isbn\<close> answers with the placeholder when the
  result is \<open>null\<close>, and with the result when that is truthy.
\<close>

theorem fetchCoverUrl_no_result_or_cover:
  "fetchCoverUrl e None = (Null, [])
   \<and> fetchCoverUrl e (Some []) = (Null, [])
   \<and> (isbn \<noteq> [] \<longrightarrow>
        snd (fetchCoverUrl e (Some isbn)) = [(OPEN_LIBRARY_API, ''ISBN:'' @ isbn)]
      \<and> (\<forall>err. axios_get e (OPEN_LIBRARY_API, ''ISBN:'' @ isbn) = Inl err \<longrightarrow>
            fst (fetchCoverUrl e (Some isbn)) = Null)
      \<and> (\<forall>data. axios_get e (OPEN_LIBRARY_API, ''ISBN:'' @ isbn) = Inr data
                  \<and> (\<forall>kvs. data \<noteq> Obj kvs) \<longrightarrow>
            fst (fetchCoverUrl e (Some isbn)) = Null)
      \<and> (\<forall>kvs. axios_get e (OPEN_LIBRARY_API, ''ISBN:'' @ isbn) = Inr (Obj kvs) \<longrightarrow>
            fst (fetchCoverUrl e (Some isbn)) =
              (let cover = opt_prop (get_prop (Obj kvs) (''ISBN:'' @ isbn)) ''cover'';
                   medium = opt_prop cover ''medium'';
                   large = opt_prop cover ''large''
               in if truthy medium then medium else if truthy large then large else Null)))
   \<and> (fst (fetchCoverUrl e (Some isbn)) = Null \<longrightarrow>
        get_api_cover e isbn st = (Json_cover isbn (Str PLACEHOLDER_COVER), st))
   \<and> (truthy (fst (fetchCoverUrl e (Some isbn))) \<longrightarrow>
        get_api_cover e isbn st = (Json_cover isbn (fst (fetchCoverUrl e (Some isbn))), st))"
proof -
  have 1: "fetchCoverUrl e None = (Null, [])" "fetchCoverUrl e (Some []) = (Null, [])"
    by (simp_all add: fetchCoverUrl_def or_null_def)
  have 2: "snd (fetchCoverUrl e (Some isbn)) = [(OPEN_LIBRARY_API, ''ISBN:'' @ isbn)]"
    if "isbn \<noteq> []"
    using that by (simp add: fetchCoverUrl_def or_null_def Let_def split: sum.splits)
  have 3: "fst (fetchCoverUrl e (Some isbn)) = Null"
    if "isbn \<noteq> []" "axios_get e (OPEN_LIBRARY_API, ''ISBN:'' @ isbn) = Inl err" for err
    using that by (simp add: fetchCoverUrl_def or_null_def Let_def)
  have 4: "fst (fetchCoverUrl e (Some isbn)) = Null"
    if "isbn \<noteq> []" "axios_get e (OPEN_LIBRARY_API, ''ISBN:'' @ isbn) = Inr data"
      "\<forall>kvs. data \<noteq> Obj kvs" for data
    using that
    by (cases data)
      (simp_all add: fetchCoverUrl_def or_null_def Let_def get_prop_def opt_prop_def js_or_def)
  have 5: "fst (fetchCoverUrl e (Some isbn)) =
              (let cover = opt_prop (get_prop (Obj kvs) (''ISBN:'' @ isbn)) ''cover'';
                   medium = opt_prop cover ''medium'';
                   large = opt_prop cover ''large''
               in if truthy medium then medium else if truthy large then large else Null)"
    if "isbn \<noteq> []" "axios_get e (OPEN_LIBRARY_API, ''ISBN:'' @ isbn) = Inr (Obj kvs)" for kvs
    using that by (simp add: fetchCoverUrl_def or_null_def Let_def js_or_def)
  have 6: "get_api_cover e isbn st = (Json_cover isbn (Str PLACEHOLDER_COVER), st)"
    if "fst (fetchCoverUrl e (Some isbn)) = Null"
    using that by (simp add: get_api_cover_def js_or_def)
  have 7: "get_api_cover e isbn st = (Json_cover isbn (fst (fetchCoverUrl e (Some isbn))), st)"
    if "truthy (fst (fetchCoverUrl e (Some isbn)))"
    using that by (simp add: get_api_cover_def js_or_def)
  from 1 2 3 4 5 6 7 show ?thesis by blast
qed

text \<open>
  Claim C6, witness: the empty ISBN; a lookup that times out; an answer with both
  sizes; an answer with the large size only.
\<close>

theorem fetchCoverUrl_no_result_or_cover_witness:
  "fetchCoverUrl env_both (Some []) = (Null, [])
   \<and> fetchCoverUrl env0 (Some ''123'') = (Null, [(''https://openlibrary.org/api/books'', ''ISBN:123'')])
   \<and> get_api_cover env0 ''123'' st_anon = (Json_cover ''123'' (Str PLACEHOLDER_COVER), st_anon)
   \<and> fst (fetchCoverUrl env_both (Some ''123'')) = Str ''m.jpg''
   \<and> fst (fetchCoverUrl env_large (Some ''123'')) = Str ''l.jpg''
   \<and> get_api_cover env_both ''123'' st_anon = (Json_cover ''123'' (Str ''m.jpg''), st_anon)"
proof -
  have n: "''123'' \<noteq> []" by simp
  have a0: "axios_get env0 (OPEN_LIBRARY_API, ''ISBN:'' @ ''123'') = Inl ''timeout of 5000ms exceeded''"
    by (simp add: env0_def)
  have ab: "axios_get env_both (OPEN_LIBRARY_API, ''ISBN:'' @ ''123'') = Inr answer_both"
    by (simp add: env_both_def env0_def)
  have al: "axios_get env_large (OPEN_LIBRARY_API, ''ISBN:'' @ ''123'') = Inr answer_large"
    by (simp add: env_large_def env0_def)
  have 0: "fst (fetchCoverUrl env0 (Some ''123'')) = Null"
    and 1: "snd (fetchCoverUrl env0 (Some ''123'')) = [(OPEN_LIBRARY_API, ''ISBN:'' @ ''123'')]"
    using fetchCoverUrl_no_result_or_cover [of env0 "''123''" st_anon] n a0 by auto
  have 2: "fst (fetchCoverUrl env_both (Some ''123'')) = Str ''m.jpg''"
    using fetchCoverUrl_no_result_or_cover [of env_both "''123''" st_anon] n ab
    by (simp add: answer_both_def get_prop_def opt_prop_def)
  have 3: "fst (fetchCoverUrl env_large (Some ''123'')) = Str ''l.jpg''"
    using fetchCoverUrl_no_result_or_cover [of env_large "''123''" st_anon] n al
    by (simp add: answer_large_def get_prop_def opt_prop_def)
  have 4: "get_api_cover env0 ''123'' st_anon = (Json_cover ''123'' (Str PLACEHOLDER_COVER), st_anon)"
    using fetchCoverUrl_no_result_or_cover [of env0 "''123''" st_anon] 0 by simp
  have 5: "get_api_cover env_both ''123'' st_anon = (Json_cover ''123'' (Str ''m.jpg''), st_anon)"
    using fetchCoverUrl_no_result_or_cover [of env_both "''123''" st_anon] 2 by simp
  have 6: "fetchCoverUrl env_both (Some []) = (Null, [])"
    using fetchCoverUrl_no_result_or_cover [of env_both "''123''" st_anon] by simp
  from 0 1 2 3 4 5 6 show ?thesis
    by (simp add: prod_eq_iff OPEN_LIBRARY_API_def)
qed


section \<open>Ordering\<close>

lemma mset_insort_by: "mset (insort_by le x xs) = add_mset x (mset xs)"
  by (induction xs) auto

lemma mset_order_by: "mset (order_by le xs) = mset xs"
  by (induction xs) (auto simp: order_by_def mset_insort_by)

lemma set_insort_by: "set (insort_by le x xs) = insert x (set xs)"
  by (induction xs) auto

lemma sorted_wrt_insort_by:
  assumes total: "\<And>a b. le a b \<or> le b a"
    and trans: "\<And>a b c. le a b \<Longrightarrow> le b c \<Longrightarrow> le a c"
  shows "sorted_wrt le xs \<Longrightarrow> sorted_wrt le (insort_by le x xs)"
proof (induction xs)
  case Nil
  then show ?case by simp
next
  case (Cons y ys)
  show ?case
  proof (cases "le x y")
    case True
    with Cons.prems trans show ?thesis by auto
  next
    case False
    with total have "le y x" by blast
    with Cons False show ?thesis by (auto simp: set_insort_by)
  qed
qed

lemma sorted_wrt_order_by:
  assumes "\<And>a b. le a b \<or> le b a"
    and "\<And>a b c. le a b \<Longrightarrow> le b c \<Longrightarrow> le a c"
  shows "sorted_wrt le (order_by le xs)"
proof (induction xs)
  case Nil
  then show ?case by (simp add: order_by_def)
next
  case (Cons x xs)
  have "sorted_wrt le (insort_by le x (order_by le xs))"
    using assms Cons by (rule sorted_wrt_insort_by)
  then show ?case by (simp add: order_by_def)
qed

lemma desc_nulls_last_total: "desc_nulls_last x y \<or> x = y \<or> desc_nulls_last y x"
  by (auto simp: desc_nulls_last_def split: option.splits)

lemma desc_nulls_last_trans:
  "desc_nulls_last x y \<Longrightarrow> desc_nulls_last y z \<Longrightarrow> desc_nulls_last x z"
  by (auto simp: desc_nulls_last_def split: option.splits)

lemma rating_order_total: "rating_order a b \<or> rating_order b a"
  using desc_nulls_last_total [of "b_rating a" "b_rating b"]
    desc_nulls_last_total [of "b_finished_on a" "b_finished_on b"]
  by (auto simp: rating_order_def)

lemma rating_order_trans: "rating_order a b \<Longrightarrow> rating_order b c \<Longrightarrow> rating_order a c"
  by (auto simp: rating_order_def dest: desc_nulls_last_trans)

lemma recent_order_total: "recent_order a b \<or> recent_order b a"
  using desc_nulls_last_total [of "b_finished_on a" "b_finished_on b"]
  by (auto simp: recent_order_def)

lemma recent_order_trans: "recent_order a b \<Longrightarrow> recent_order b c \<Longrightarrow> recent_order a c"
  by (auto simp: recent_order_def dest: desc_nulls_last_trans)

lemma title_order_total: "title_order a b \<or> title_order b a"
  by (auto simp: title_order_def)

lemma title_order_trans: "title_order a b \<Longrightarrow> title_order b c \<Longrightarrow> title_order a c"
  by (auto simp: title_order_def)

lemma mset_select_books:
  "mset (select_books uid srt st) = mset (filter (\<lambda>b. b_user_id b = Some uid) (books st))"
  by (simp add: select_books_def mset_order_by)

lemma LOWER_shelf_titles:
  "LOWER ''banana'' = ''banana''" "LOWER ''Apple'' = ''apple''" "LOWER ''cherry'' = ''cherry''"
  "LOWER ''Dune'' = ''dune''"
  by code_simp+

lemma shelf_by_title: "map b_title (select_books 1 ''title'' st_shelf) = [''Apple'', ''banana'', ''cherry'']"
  by (simp add: select_books_def st_shelf_def orderBy_def order_by_def shelf_book_def bobs_book_def
      title_order_def LOWER_shelf_titles)

lemma shelf_by_rating: "map b_rating (select_books 1 ''rating'' st_shelf) = [Some 5, Some 3, None]"
  by (simp add: select_books_def st_shelf_def orderBy_def order_by_def shelf_book_def bobs_book_def
      rating_order_def desc_nulls_last_def)

lemma req_user_st_shelf: "req_user st_shelf = Some (1, ''alice@example.com'')"
  by (simp add: req_user_def deserializeUser_def st_shelf_def alice_def bob_def)

lemma get_root_authenticated:
  "req_user st = Some (uid, m) \<Longrightarrow>
   get_root q st = (Render_index (select_books uid (sort_param q) st) (sort_param q), st)"
  by (simp add: get_root_def requireAuth_authenticated h_get_root_def)

lemma lower_char_other:
  "c \<notin> set ''ABCDEFGHIJKLMNOPQRSTUVWXYZ'' \<Longrightarrow> lower_char c = c"
proof -
  assume a: "c \<notin> set ''ABCDEFGHIJKLMNOPQRSTUVWXYZ''"
  have "\<not> (CHR ''A'' \<le> c \<and> c \<le> CHR ''Z'')"
  proof
    assume b: "CHR ''A'' \<le> c \<and> c \<le> CHR ''Z''"
    then have "65 \<le> (of_char c :: nat)" "(of_char c :: nat) \<le> 90"
      by (simp_all add: less_eq_char_def)
    then have "(of_char c :: nat) \<in> {65..<91}" by simp
    then have "(of_char c :: nat) \<in> set [65..<91]" by (simp only: set_upt)
    then have "char_of (of_char c :: nat) \<in> char_of ` set [65..<91]" by (rule imageI)
    then have "c \<in> set (map char_of [65..<91::nat])" by simp
    also have "map char_of [65..<91::nat] = ''ABCDEFGHIJKLMNOPQRSTUVWXYZ''"
      by code_simp
    finally show False using a by simp
  qed
  then show ?thesis unfolding lower_char_def by (simp only: if_False)
qed

lemma LOWER_capitals:
  "LOWER ''ABCDEFGHIJKLMNOPQRSTUVWXYZ'' = ''abcdefghijklmnopqrstuvwxyz''"
  by code_simp

lemma LOWER_other:
  assumes "\<forall>c \<in> set s. c \<notin> set ''ABCDEFGHIJKLMNOPQRSTUVWXYZ''"
  shows "LOWER s = s"
  unfolding LOWER_def
proof (rule map_idI)
  fix c assume "c \<in> set s"
  with assms have "c \<notin> set ''ABCDEFGHIJKLMNOPQRSTUVWXYZ''" by blast
  then show "lower_char c = c" by (rule lower_char_other)
qed

lemma LOWER_append: "LOWER (s @ t) = LOWER s @ LOWER t"
  by (simp add: LOWER_def)

lemma LOWER_library_titles:
  "LOWER ''delta'' = ''delta''" "LOWER ''Echo'' = ''echo''" "LOWER ''alpha'' = ''alpha''"
  "LOWER ''Charlie'' = ''charlie''" "LOWER ''bravo'' = ''bravo''" "LOWER ''Foxtrot'' = ''foxtrot''"
  by code_simp+

lemma library_by_title:
  "select_books 1 ''title'' st_library =
     [shelf_book 6 ''alpha'' (Some 4) (Some 9), shelf_book 9 ''bravo'' (Some 5) None,
      shelf_book 8 ''Charlie'' None (Some 30), shelf_book 7 ''delta'' (Some 4) None,
      shelf_book 5 ''Echo'' (Some 4) (Some 5), shelf_book 10 ''Foxtrot'' (Some 2) (Some 9)]"
  by (simp add: select_books_def st_library_def orderBy_def order_by_def shelf_book_def
      bobs_book_def title_order_def LOWER_library_titles)

lemma library_by_rating:
  "select_books 1 ''rating'' st_library =
     [shelf_book 9 ''bravo'' (Some 5) None, shelf_book 6 ''alpha'' (Some 4) (Some 9),
      shelf_book 5 ''Echo'' (Some 4) (Some 5), shelf_book 7 ''delta'' (Some 4) None,
      shelf_book 10 ''Foxtrot'' (Some 2) (Some 9), shelf_book 8 ''Charlie'' None (Some 30)]"
  by (simp add: select_books_def st_library_def orderBy_def order_by_def shelf_book_def
      bobs_book_def rating_order_def desc_nulls_last_def)

lemma library_recent:
  "select_books 1 ''recent'' st_library =
     [shelf_book 8 ''Charlie'' None (Some 30), shelf_book 10 ''Foxtrot'' (Some 2) (Some 9),
      shelf_book 6 ''alpha'' (Some 4) (Some 9), shelf_book 5 ''Echo'' (Some 4) (Some 5),
      shelf_book 9 ''bravo'' (Some 5) None, shelf_book 7 ''delta'' (Some 4) None]"
  by (simp add: select_books_def st_library_def orderBy_def order_by_def shelf_book_def
      bobs_book_def recent_order_def desc_nulls_last_def)

lemma req_user_st_library: "req_user st_library = Some (1, ''alice@example.com'')"
  by (simp add: req_user_def deserializeUser_def st_library_def alice_def bob_def)

lemma rating_order_explicit:
  "rating_order a b \<Longrightarrow>
     (b_rating a = None \<longrightarrow> b_rating b = None)
   \<and> (\<forall>x y. b_rating a = Some x \<and> b_rating b = Some y \<longrightarrow> y \<le> x)
   \<and> (b_rating a = b_rating b \<longrightarrow>
        (b_finished_on a = None \<longrightarrow> b_finished_on b = None)
      \<and> (\<forall>d d'. b_finished_on a = Some d \<and> b_finished_on b = Some d' \<longrightarrow> d' \<le> d))"
  by (auto simp: rating_order_def desc_nulls_last_def split: option.splits)

lemma recent_order_explicit:
  "recent_order a b \<Longrightarrow>
     (b_finished_on a = None \<longrightarrow> b_finished_on b = None)
   \<and> (\<forall>d d'. b_finished_on a = Some d \<and> b_finished_on b = Some d' \<longrightarrow> d' \<le> d)
   \<and> (b_finished_on a = b_finished_on b \<longrightarrow> b_id b \<le> b_id a)"
  by (auto simp: recent_order_def desc_nulls_last_def split: option.splits)

text \<open>
  Claim C7. For every user, the listing with sort key \<open>title\<close> is sorted ascending by
  the title with its capitals turned into small letters (\<open>LOWER\<close> maps \<open>A\<close> to \<open>Z\<close> onto
  \<open>a\<close> to \<open>z\<close>, leaves every other character and works character by character) and
  holds exactly that user's books, each as often as the table does; it is what
  \<open>GET /?sort=title\<close> renders. On Alice's shelf of "banana", "Apple" and "cherry" the
  titles come back as Apple, banana, cherry; on her larger shelf they come back as
  alpha, bravo, Charlie, delta, Echo, Foxtrot, where the order of the bytes would put
  the capitals first.
\<close>

theorem list_by_title:
  "sorted (map (\<lambda>b. LOWER (b_title b)) (select_books uid ''title'' st))
   \<and> LOWER ''ABCDEFGHIJKLMNOPQRSTUVWXYZ'' = ''abcdefghijklmnopqrstuvwxyz''
   \<and> ((\<forall>c \<in> set s. c \<notin> set ''ABCDEFGHIJKLMNOPQRSTUVWXYZ'') \<longrightarrow> LOWER s = s)
   \<and> LOWER (s @ t) = LOWER s @ LOWER t
   \<and> mset (select_books uid ''title'' st) = mset (filter (\<lambda>b. b_user_id b = Some uid) (books st))
   \<and> (req_user st = Some (uid, m) \<longrightarrow>
        get_root (Some ''title'') st = (Render_index (select_books uid ''title'' st) ''title'', st))
   \<and> map b_title (select_books 1 ''title'' st_shelf) = [''Apple'', ''banana'', ''cherry'']
   \<and> map b_title (select_books 1 ''title'' st_library)
       = [''alpha'', ''bravo'', ''Charlie'', ''delta'', ''Echo'', ''Foxtrot'']"
proof -
  have "sorted_wrt title_order (order_by title_order xs)" for xs
    using title_order_total title_order_trans by (rule sorted_wrt_order_by)
  then have 1: "sorted (map (\<lambda>b. LOWER (b_title b)) (select_books uid ''title'' st))"
    by (simp add: select_books_def orderBy_def sorted_map title_order_def [abs_def])
  have 2: "req_user st = Some (uid, m) \<Longrightarrow>
        get_root (Some ''title'') st = (Render_index (select_books uid ''title'' st) ''title'', st)"
    using get_root_authenticated [of st uid m "Some ''title''"]
    by (simp add: sort_param_def or_null_def)
  have 3: "(\<forall>c \<in> set s. c \<notin> set ''ABCDEFGHIJKLMNOPQRSTUVWXYZ'') \<longrightarrow> LOWER s = s"
    using LOWER_other by blast
  have 4: "map b_title (select_books 1 ''title'' st_library)
       = [''alpha'', ''bravo'', ''Charlie'', ''delta'', ''Echo'', ''Foxtrot'']"
    by (simp add: library_by_title shelf_book_def)
  from 1 2 3 4 LOWER_capitals LOWER_append mset_select_books shelf_by_title
  show ?thesis by blast
qed

text \<open>
  Claim C7, witness: what \<open>GET /?sort=title\<close> renders for Alice, on both shelves.
\<close>

theorem list_by_title_witness:
  "get_root (Some ''title'') st_shelf =
     (Render_index [shelf_book 3 ''Apple'' None None, shelf_book 2 ''banana'' (Some 5) (Some 10),
                    shelf_book 4 ''cherry'' (Some 3) (Some 20)] ''title'', st_shelf)
   \<and> get_root (Some ''title'') st_library =
     (Render_index
        [shelf_book 6 ''alpha'' (Some 4) (Some 9), shelf_book 9 ''bravo'' (Some 5) None,
         shelf_book 8 ''Charlie'' None (Some 30), shelf_book 7 ''delta'' (Some 4) None,
         shelf_book 5 ''Echo'' (Some 4) (Some 5), shelf_book 10 ''Foxtrot'' (Some 2) (Some 9)]
        ''title'', st_library)"
proof -
  have s: "select_books 1 ''title'' st_shelf =
      [shelf_book 3 ''Apple'' None None, shelf_book 2 ''banana'' (Some 5) (Some 10),
       shelf_book 4 ''cherry'' (Some 3) (Some 20)]"
    by (simp add: select_books_def st_shelf_def orderBy_def order_by_def shelf_book_def
        bobs_book_def title_order_def LOWER_shelf_titles)
  have 1: "get_root (Some ''title'') st_shelf
      = (Render_index (select_books 1 ''title'' st_shelf) ''title'', st_shelf)"
    using list_by_title [of 1 st_shelf _ _ "''alice@example.com''"] req_user_st_shelf by blast
  have 2: "get_root (Some ''title'') st_library
      = (Render_index (select_books 1 ''title'' st_library) ''title'', st_library)"
    using list_by_title [of 1 st_library _ _ "''alice@example.com''"] req_user_st_library by blast
  from 1 2 show ?thesis by (simp add: s library_by_title)
qed

text \<open>
  Claim C8. For every user, in the listing with sort key \<open>rating\<close>, of any two rows
  the earlier one has the higher or the same rating, a row without a rating is
  followed only by rows without one, and of two rows with the same rating (or both
  without) the earlier one has the later or the same finished date, a row without a
  date being followed only by rows without one. The listing holds exactly that user's
  books; it is what \<open>GET /?sort=rating\<close> renders. On Alice's shelf, rated 5, unrated
  and 3 in table order, the ratings come back as 5, 3, unset; on her larger shelf the
  three books rated 4 come back by date, the undated one last.
\<close>

theorem list_by_rating:
  "sorted_wrt
     (\<lambda>a b. (b_rating a = None \<longrightarrow> b_rating b = None)
           \<and> (\<forall>x y. b_rating a = Some x \<and> b_rating b = Some y \<longrightarrow> y \<le> x)
           \<and> (b_rating a = b_rating b \<longrightarrow>
                (b_finished_on a = None \<longrightarrow> b_finished_on b = None)
              \<and> (\<forall>d d'. b_finished_on a = Some d \<and> b_finished_on b = Some d' \<longrightarrow> d' \<le> d)))
     (select_books uid ''rating'' st)
   \<and> mset (select_books uid ''rating'' st) = mset (filter (\<lambda>b. b_user_id b = Some uid) (books st))
   \<and> (req_user st = Some (uid, m) \<longrightarrow>
        get_root (Some ''rating'') st = (Render_index (select_books uid ''rating'' st) ''rating'', st))
   \<and> map b_rating (select_books 1 ''rating'' st_shelf) = [Some 5, Some 3, None]
   \<and> map (\<lambda>b. (b_id b, b_rating b, b_finished_on b)) (select_books 1 ''rating'' st_library)
       = [(9, Some 5, None), (6, Some 4, Some 9), (5, Some 4, Some 5), (7, Some 4, None),
          (10, Some 2, Some 9), (8, None, Some 30)]"
proof -
  have "sorted_wrt rating_order (order_by rating_order xs)" for xs
    using rating_order_total rating_order_trans by (rule sorted_wrt_order_by)
  then have "sorted_wrt rating_order (select_books uid ''rating'' st)"
    by (simp add: select_books_def orderBy_def)
  then have 1: "sorted_wrt
     (\<lambda>a b. (b_rating a = None \<longrightarrow> b_rating b = None)
           \<and> (\<forall>x y. b_rating a = Some x \<and> b_rating b = Some y \<longrightarrow> y \<le> x)
           \<and> (b_rating a = b_rating b \<longrightarrow>
                (b_finished_on a = None \<longrightarrow> b_finished_on b = None)
              \<and> (\<forall>d d'. b_finished_on a = Some d \<and> b_finished_on b = Some d' \<longrightarrow> d' \<le> d)))
     (select_books uid ''rating'' st)"
    by (rule sorted_wrt_mono_rel [rotated]) (rule rating_order_explicit)
  have 2: "req_user st = Some (uid, m) \<Longrightarrow>
        get_root (Some ''rating'') st = (Render_index (select_books uid ''rating'' st) ''rating'', st)"
    using get_root_authenticated [of st uid m "Some ''rating''"]
    by (simp add: sort_param_def or_null_def)
  have 3: "map (\<lambda>b. (b_id b, b_rating b, b_finished_on b)) (select_books 1 ''rating'' st_library)
       = [(9, Some 5, None), (6, Some 4, Some 9), (5, Some 4, Some 5), (7, Some 4, None),
          (10, Some 2, Some 9), (8, None, Some 30)]"
    by (simp add: library_by_rating shelf_book_def)
  from 1 2 3 mset_select_books shelf_by_rating show ?thesis by blast
qed

text \<open>
  Claim C8, witness: what \<open>GET /?sort=rating\<close> renders for Alice, on both shelves.
\<close>

theorem list_by_rating_witness:
  "get_root (Some ''rating'') st_shelf =
     (Render_index [shelf_book 2 ''banana'' (Some 5) (Some 10), shelf_book 4 ''cherry'' (Some 3) (Some 20),
                    shelf_book 3 ''Apple'' None None] ''rating'', st_shelf)
   \<and> get_root (Some ''rating'') st_library =
     (Render_index
        [shelf_book 9 ''bravo'' (Some 5) None, shelf_book 6 ''alpha'' (Some 4) (Some 9),
         shelf_book 5 ''Echo'' (Some 4) (Some 5), shelf_book 7 ''delta'' (Some 4) None,
         shelf_book 10 ''Foxtrot'' (Some 2) (Some 9), shelf_book 8 ''Charlie'' None (Some 30)]
        ''rating'', st_library)"
proof -
  have s: "select_books 1 ''rating'' st_shelf =
      [shelf_book 2 ''banana'' (Some 5) (Some 10), shelf_book 4 ''cherry'' (Some 3) (Some 20),
       shelf_book 3 ''Apple'' None None]"
    by (simp add: select_books_def st_shelf_def orderBy_def order_by_def shelf_book_def
        bobs_book_def rating_order_def desc_nulls_last_def)
  have 1: "get_root (Some ''rating'') st_shelf
      = (Render_index (select_books 1 ''rating'' st_shelf) ''rating'', st_shelf)"
    using list_by_rating [of 1 st_shelf "''alice@example.com''"] req_user_st_shelf by blast
  have 2: "get_root (Some ''rating'') st_library
      = (Render_index (select_books 1 ''rating'' st_library) ''rating'', st_library)"
    using list_by_rating [of 1 st_library "''alice@example.com''"] req_user_st_library by blast
  from 1 2 show ?thesis by (simp add: s library_by_rating)
qed

text \<open>
  Claim C9. For every user and every sort parameter that is neither \<open>rating\<close> nor
  \<open>title\<close>, an absent one included, the listing is the one for \<open>recent\<close>: of any two
  rows the earlier one has the later or the same finished date, a row without a date
  is followed only by rows without one, and of two rows with the same date (or both
  without) the earlier one has the greater id. The listing holds exactly that user's
  books; it is what \<open>GET /\<close> renders. On Alice's larger shelf the two books finished on
  day 9 come back as 10, 6 and the two never finished as 9, 7.
\<close>

theorem unknown_sort_falls_back_to_recent:
  assumes "q \<noteq> Some ''rating''" and "q \<noteq> Some ''title''"
  shows "select_books uid (sort_param q) st = select_books uid ''recent'' st
       \<and> sorted_wrt
           (\<lambda>a b. (b_finished_on a = None \<longrightarrow> b_finished_on b = None)
                 \<and> (\<forall>d d'. b_finished_on a = Some d \<and> b_finished_on b = Some d' \<longrightarrow> d' \<le> d)
                 \<and> (b_finished_on a = b_finished_on b \<longrightarrow> b_id b \<le> b_id a))
           (select_books uid (sort_param q) st)
       \<and> mset (select_books uid (sort_param q) st)
           = mset (filter (\<lambda>b. b_user_id b = Some uid) (books st))
       \<and> (req_user st = Some (uid, m) \<longrightarrow>
            get_root q st = (Render_index (select_books uid ''recent'' st) (sort_param q), st))
       \<and> map (\<lambda>b. (b_id b, b_finished_on b)) (select_books 1 ''recent'' st_library)
           = [(8, Some 30), (10, Some 9), (6, Some 9), (5, Some 5), (9, None), (7, None)]"
proof -
  have k: "sort_param q \<noteq> ''rating''" "sort_param q \<noteq> ''title''"
    using assms by (auto simp: sort_param_def or_null_def split: option.splits if_splits)
  then have o: "orderBy (sort_param q) = recent_order"
    by (simp add: orderBy_def)
  have r: "orderBy ''recent'' = recent_order"
    by (simp add: orderBy_def)
  have 1: "select_books uid (sort_param q) st = select_books uid ''recent'' st"
    by (simp add: select_books_def o r)
  have "sorted_wrt recent_order (order_by recent_order xs)" for xs
    using recent_order_total recent_order_trans by (rule sorted_wrt_order_by)
  then have "sorted_wrt recent_order (select_books uid (sort_param q) st)"
    by (simp add: select_books_def o)
  then have 2: "sorted_wrt
           (\<lambda>a b. (b_finished_on a = None \<longrightarrow> b_finished_on b = None)
                 \<and> (\<forall>d d'. b_finished_on a = Some d \<and> b_finished_on b = Some d' \<longrightarrow> d' \<le> d)
                 \<and> (b_finished_on a = b_finished_on b \<longrightarrow> b_id b \<le> b_id a))
           (select_books uid (sort_param q) st)"
    by (rule sorted_wrt_mono_rel [rotated]) (rule recent_order_explicit)
  have 3: "req_user st = Some (uid, m) \<Longrightarrow>
        get_root q st = (Render_index (select_books uid ''recent'' st) (sort_param q), st)"
    using get_root_authenticated [of st uid m q] by (simp add: 1)
  have 4: "map (\<lambda>b. (b_id b, b_finished_on b)) (select_books 1 ''recent'' st_library)
           = [(8, Some 30), (10, Some 9), (6, Some 9), (5, Some 5), (9, None), (7, None)]"
    by (simp add: library_recent shelf_book_def)
  from 1 2 3 4 mset_select_books show ?thesis by blast
qed

text \<open>
  Claim C9, witness: an unknown key and an absent key on Alice's shelf, and an unknown
  key on her larger shelf.
\<close>

theorem unknown_sort_falls_back_to_recent_witness:
  "get_root (Some ''newest'') st_shelf =
     (Render_index [shelf_book 4 ''cherry'' (Some 3) (Some 20), shelf_book 2 ''banana'' (Some 5) (Some 10),
                    shelf_book 3 ''Apple'' None None] ''newest'', st_shelf)
   \<and> get_root None st_shelf =
     (Render_index [shelf_book 4 ''cherry'' (Some 3) (Some 20), shelf_book 2 ''banana'' (Some 5) (Some 10),
                    shelf_book 3 ''Apple'' None None] ''recent'', st_shelf)
   \<and> get_root (Some ''newest'') st_library =
     (Render_index
        [shelf_book 8 ''Charlie'' None (Some 30), shelf_book 10 ''Foxtrot'' (Some 2) (Some 9),
         shelf_book 6 ''alpha'' (Some 4) (Some 9), shelf_book 5 ''Echo'' (Some 4) (Some 5),
         shelf_book 9 ''bravo'' (Some 5) None, shelf_book 7 ''delta'' (Some 4) None]
        ''newest'', st_library)"
proof -
  have s: "select_books 1 ''recent'' st_shelf =
      [shelf_book 4 ''cherry'' (Some 3) (Some 20), shelf_book 2 ''banana'' (Some 5) (Some 10),
       shelf_book 3 ''Apple'' None None]"
    by (simp add: select_books_def st_shelf_def orderBy_def order_by_def shelf_book_def
        bobs_book_def recent_order_def desc_nulls_last_def)
  have a: "Some ''newest'' \<noteq> Some ''rating''" "Some ''newest'' \<noteq> Some ''title''"
    "None \<noteq> Some ''rating''" "None \<noteq> Some ''title''"
    by simp_all
  have 1: "get_root (Some ''newest'') st_shelf
      = (Render_index (select_books 1 ''recent'' st_shelf) (sort_param (Some ''newest'')), st_shelf)"
    using unknown_sort_falls_back_to_recent [OF a(1,2), of 1 st_shelf "''alice@example.com''"]
      req_user_st_shelf by blast
  have 2: "get_root None st_shelf
      = (Render_index (select_books 1 ''recent'' st_shelf) (sort_param None), st_shelf)"
    using unknown_sort_falls_back_to_recent [OF a(3,4), of 1 st_shelf "''alice@example.com''"]
      req_user_st_shelf by blast
  have 3: "get_root (Some ''newest'') st_library
      = (Render_index (select_books 1 ''recent'' st_library) (sort_param (Some ''newest'')), st_library)"
    using unknown_sort_falls_back_to_recent [OF a(1,2), of 1 st_library "''alice@example.com''"]
      req_user_st_library by blast
  from 1 2 3 show ?thesis by (simp add: s library_recent sort_param_def or_null_def)
qed

end
